theory Spec2Isabelle
  imports Main "HOL-Library.Sublist" "HOL-Library.AList"
begin

section \<open>Data model of \<open>src/ui.py\<close>\<close>

text \<open>
  The turn orchestration of \<open>src/ui.py\<close> works on Streamlit's per-session dictionary
  \<open>st.session_state\<close> and on a handful of external collaborators (NLU engine, symptom
  checker, translation utility, response generator, persistence backend).  The session
  dictionary becomes the record \<open>session_state\<close>, passed explicitly; a procedure of the
  source becomes a function from the state to a pair of an optional exception (\<open>None\<close>:
  the procedure returned, \<open>Some e\<close>: it raised \<open>e\<close>) and the state at that moment, so that
  the mutations made before a raise are kept, as in Python.  The collaborators are the
  fields of the record \<open>env\<close>; each of them returns \<open>Inl e\<close> when it raises.  Strings are
  lists of 8-bit characters.
\<close>

datatype exn = AttributeError | Error string

fun exn_str :: "exn \<Rightarrow> string" where
  "exn_str AttributeError = ''AttributeError''"
| "exn_str (Error m) = m"

datatype role = User | Assistant | System

record message =
  role :: role
  content :: string
  lang :: "string option"

record question_data =
  question :: string
  symptom_name :: string

record follow_up_answer =
  fa_symptom_name :: string
  fa_question :: string
  fa_answer :: string

record entity =
  entity_text :: string
  entity_type :: string

datatype HealthIntent = SYMPTOM_QUERY | OTHER_INTENT

record NLUResult =
  intent :: HealthIntent
  is_emergency :: bool
  entities :: "entity list"

text \<open>
  The dictionary returned by \<open>generate_preliminary_assessment\<close>.  A field is \<open>None\<close> when
  the key is absent; \<open>recommended_next_steps\<close> is a list, a string or something else.
\<close>

datatype next_steps = StepsList "string list" | StepsStr string | StepsOther

record assessment =
  assessment_summary :: "string option"
  suggested_severity :: "string option"
  recommended_next_steps :: "next_steps option"
  potential_warnings :: "string list option"
  relevant_kb_triage_points :: "string list option"
  disclaimer :: "string option"

record supabase_session_data =
  user_id :: "string option"
  access_token :: string
  refresh_token :: string

datatype voice_stage = Arming | Recording | Transcribing | Processing_stt

record stt_result =
  transcription :: string
  language_detected :: "string option"

record session_context =
  ctx_extracted_symptoms :: "string list"
  ctx_follow_up_answers :: "follow_up_answer list"
  ctx_last_advice_given :: string
  ctx_user_profile :: "(string \<times> string) list option"
  ctx_user_memory :: "(string \<times> string) list option"
  ctx_past_messages :: "message list"

text \<open>
  \<open>st.session_state\<close>, with the keys the chat page reads and writes (lines 121 to 176).
  The type \<open>'c\<close> is the state of the \<open>SymptomChecker\<close> instance, whose class is not part
  of \<open>src/ui.py\<close>.
\<close>

record 'c session_state =
  conversation :: "message list"
  current_language_display :: string
  current_language_code :: string
  text_query_input_area :: string
  symptom_checker_active :: bool
  symptom_checker_instance :: "'c option"
  pending_symptom_question_data :: "question_data option"
  voice_input_stage :: "voice_stage option"
  captured_audio_data :: "nat list option"
  cleaned_audio_data :: "int list option"
  captured_audio_sample_rate :: nat
  extracted_symptoms :: "string list"
  follow_up_answers :: "follow_up_answer list"
  last_advice_given :: string
  user_profile :: "(string \<times> string) list"
  supabase_session :: "supabase_session_data option"
  chat_list :: "string list"
  current_chat_id :: "string option"
  persistent_memory :: "(string \<times> string) list"

text \<open>
  The collaborators, imported at lines 19 to 90 and not part of \<open>src/ui.py\<close>: they are
  parameters of every procedure.  A method of the symptom checker returns the new state
  of the instance it mutates.
\<close>

record 'c env =
  SARVAM_API_KEY :: string
  is_supabase_configured :: bool
  process_transcription :: "string \<Rightarrow> string \<Rightarrow> exn + NLUResult"
  SymptomChecker :: "NLUResult \<Rightarrow> exn + 'c"
  prepare_follow_up_questions :: "'c \<Rightarrow> exn + 'c"
  get_next_question :: "'c \<Rightarrow> exn + question_data option \<times> 'c"
  record_answer :: "'c \<Rightarrow> string \<Rightarrow> string \<Rightarrow> string \<Rightarrow> exn + 'c"
  generate_preliminary_assessment :: "'c \<Rightarrow> exn + assessment \<times> 'c"
  collected_symptom_details :: "'c \<Rightarrow> string list"
  generate_response :: "string \<Rightarrow> NLUResult \<Rightarrow> session_context \<Rightarrow> exn + string"
  translate_text :: "string \<Rightarrow> string \<Rightarrow> exn + string"
  translate_text_to_english :: "string \<Rightarrow> exn + string"
  transcribe_audio :: "int list \<Rightarrow> nat \<Rightarrow> string \<Rightarrow> exn + stt_result"
  json_dumps :: "assessment \<Rightarrow> exn + string"
  chat_create :: "string option \<Rightarrow> string \<Rightarrow> exn + string option"
  chats_list :: "string option \<Rightarrow> exn + string list"
  message_insert :: "string \<Rightarrow> role \<Rightarrow> string \<Rightarrow> exn + bool"
  user_memory_upsert :: "string option \<Rightarrow> string \<Rightarrow> string \<Rightarrow> exn + bool"
  get_recent_messages_from_other_chats :: "string option \<Rightarrow> string \<Rightarrow> nat \<Rightarrow> exn + message list"
  sf_read :: "nat list \<Rightarrow> exn + int list \<times> nat"
  get_cleaned_audio :: "int list \<Rightarrow> nat \<Rightarrow> exn + int list \<times> nat"

section \<open>String helpers of Python\<close>

text \<open>\<open>str.isspace\<close> on the characters below 256.\<close>

definition py_isspace :: "char \<Rightarrow> bool" where
  "py_isspace c = (of_char c \<in> set [9, 10, 11, 12, 13, 28, 29, 30, 31, 32, 133, 160 :: nat])"

definition strip :: "string \<Rightarrow> string" where
  "strip xs = rev (dropWhile py_isspace (rev (dropWhile py_isspace xs)))"

text \<open>\<open>code.split('-')[0]\<close>: the text before the first hyphen.\<close>

definition split_dash_first :: "string \<Rightarrow> string" where
  "split_dash_first code = takeWhile (\<lambda>c. c \<noteq> CHR ''-'') code"

text \<open>\<open>sep.join(xs)\<close>.\<close>

fun join :: "string \<Rightarrow> string list \<Rightarrow> string" where
  "join sep [] = []"
| "join sep [x] = x"
| "join sep (x # y # ys) = x @ sep @ join sep (y # ys)"

text \<open>The horizontal ellipsis U+2026 of line 632, in UTF-8.\<close>

definition ELLIPSIS :: string where
  "ELLIPSIS = [char_of (226 :: nat), char_of (128 :: nat), char_of (166 :: nat)]"

section \<open>Conversation log and persistence helpers\<close>

text \<open>\<open>add_message_to_conversation\<close>, lines 617 to 621.\<close>

definition add_message_to_conversation ::
  "role \<Rightarrow> string \<Rightarrow> string option \<Rightarrow> 'c session_state \<Rightarrow> 'c session_state" where
  "add_message_to_conversation r c lang_code s =
     s\<lparr>conversation := conversation s @
        [\<lparr>role = r, content = c,
          lang = (case lang_code of
                    None \<Rightarrow> None
                  | Some l \<Rightarrow> if l \<noteq> [] \<and> r = User then Some l else None)\<rparr>]\<rparr>"

text \<open>Truthiness of a chat id (\<open>if cid:\<close>).\<close>

definition truthy_id :: "string option \<Rightarrow> bool" where
  "truthy_id cid = (case cid of None \<Rightarrow> False | Some c \<Rightarrow> c \<noteq> [])"

text \<open>
  The body of the \<open>try\<close> of \<open>_persist_message_to_db\<close>, lines 629 to 638: the creation of
  the chat on the first message, then the insertion.
\<close>

definition persist_create_chat ::
  "'c env \<Rightarrow> string \<Rightarrow> 'c session_state \<Rightarrow> exn option \<times> string option \<times> 'c session_state" where
  "persist_create_chat env c s =
     (let uid = (case supabase_session s of None \<Rightarrow> None | Some ss \<Rightarrow> user_id ss);
          cid = current_chat_id s
      in if cid = None then
           (let title = (if length c > 50 then take 50 c @ ELLIPSIS
                         else if c = [] then ''Chat'' else c)
            in case chat_create env uid title of
                 Inl e \<Rightarrow> (Some e, cid, s)
               | Inr cid' \<Rightarrow>
                   if truthy_id cid' then
                     (let s1 = s\<lparr>current_chat_id := cid'\<rparr>
                      in case chats_list env uid of
                           Inl e \<Rightarrow> (Some e, cid', s1)
                         | Inr cl \<Rightarrow> (None, cid', s1\<lparr>chat_list := cl\<rparr>))
                   else (None, cid', s))
         else (None, cid, s))"

definition persist_try_body ::
  "'c env \<Rightarrow> role \<Rightarrow> string \<Rightarrow> 'c session_state \<Rightarrow> exn option \<times> 'c session_state" where
  "persist_try_body env r c s =
     (case persist_create_chat env c s of
        (Some e, cid, s1) \<Rightarrow> (Some e, s1)
      | (None, cid, s1) \<Rightarrow>
          (case cid of
             None \<Rightarrow> (None, s1)
           | Some cidv \<Rightarrow>
               if cidv \<noteq> [] then
                 (case message_insert env cidv r c of
                    Inl e \<Rightarrow> (Some e, s1)
                  | Inr ok \<Rightarrow> (None, s1))
               else (None, s1)))"

text \<open>
  \<open>_persist_message_to_db\<close>, lines 624 to 640: the early return, then the \<open>try\<close> whose
  \<open>except Exception: pass\<close> turns a raise into a normal return.
\<close>

definition persist_message_to_db ::
  "'c env \<Rightarrow> role \<Rightarrow> string \<Rightarrow> 'c session_state \<Rightarrow> exn option \<times> 'c session_state" where
  "persist_message_to_db env r c s =
     (if \<not> is_supabase_configured env \<or> supabase_session s = None then (None, s)
      else (case persist_try_body env r c s of
              (Some e, s1) \<Rightarrow> (None, s1)
            | (None, s1) \<Rightarrow> (None, s1)))"

text \<open>The body of the \<open>try\<close> of \<open>_save_health_context_to_memory\<close>, lines 648 to 657.\<close>

definition save_health_try_body ::
  "'c env \<Rightarrow> 'c session_state \<Rightarrow> exn option \<times> 'c session_state" where
  "save_health_try_body env s =
     (let uid = (case supabase_session s of None \<Rightarrow> None | Some ss \<Rightarrow> user_id ss);
          symptoms = extracted_symptoms s;
          advice = take 800 (last_advice_given s);
          r1 = (if symptoms \<noteq> [] then
                  (let val = join '', '' (take 20 symptoms)
                   in case user_memory_upsert env uid ''last_symptoms'' val of
                        Inl e \<Rightarrow> (Some e, s)
                      | Inr ok \<Rightarrow>
                          (None, s\<lparr>persistent_memory :=
                                     AList.update ''last_symptoms'' val (persistent_memory s)\<rparr>))
                else (None, s))
      in case r1 of
           (Some e, s1) \<Rightarrow> (Some e, s1)
         | (None, s1) \<Rightarrow>
             if advice \<noteq> [] then
               (case user_memory_upsert env uid ''last_advice'' advice of
                  Inl e \<Rightarrow> (Some e, s1)
                | Inr ok \<Rightarrow>
                    (None, s1\<lparr>persistent_memory :=
                                AList.update ''last_advice'' advice (persistent_memory s1)\<rparr>))
             else (None, s1))"

text \<open>\<open>_save_health_context_to_memory\<close>, lines 643 to 659.\<close>

definition save_health_context_to_memory ::
  "'c env \<Rightarrow> 'c session_state \<Rightarrow> exn option \<times> 'c session_state" where
  "save_health_context_to_memory env s =
     (if \<not> is_supabase_configured env \<or> supabase_session s = None then (None, s)
      else (case save_health_try_body env s of
              (Some e, s1) \<Rightarrow> (None, s1)
            | (None, s1) \<Rightarrow> (None, s1)))"

section \<open>Rendering of an assessment\<close>

text \<open>
  \<open>_get_utils(SARVAM_API_KEY)\<close>, lines 552 to 556, is \<open>None\<close> when the key is empty, and a
  method call on \<open>None\<close> raises \<open>AttributeError\<close>.
\<close>

definition util_translate_text :: "'c env \<Rightarrow> string \<Rightarrow> string \<Rightarrow> exn + string" where
  "util_translate_text env t l =
     (if SARVAM_API_KEY env = [] then Inl AttributeError else translate_text env t l)"

definition util_translate_text_to_english :: "'c env \<Rightarrow> string \<Rightarrow> exn + string" where
  "util_translate_text_to_english env t =
     (if SARVAM_API_KEY env = [] then Inl AttributeError else translate_text_to_english env t)"

definition util_transcribe_audio :: "'c env \<Rightarrow> int list \<Rightarrow> nat \<Rightarrow> string \<Rightarrow> exn + stt_result" where
  "util_transcribe_audio env a sr l =
     (if SARVAM_API_KEY env = [] then Inl AttributeError else transcribe_audio env a sr l)"

definition bind_exn :: "exn + 'a \<Rightarrow> ('a \<Rightarrow> exn + 'b) \<Rightarrow> exn + 'b" where
  "bind_exn m f = (case m of Inl e \<Rightarrow> Inl e | Inr x \<Rightarrow> f x)"

definition NL :: string where
  "NL = [char_of (10 :: nat)]"

definition is_sentence_end :: "char \<Rightarrow> bool" where
  "is_sentence_end c = (c = CHR ''.'' \<or> c = CHR ''!'' \<or> c = CHR ''?'')"

text \<open>
  \<open>re.split(r'(?<=[.!?])\s+', t)\<close>, line 1120: the text is cut at every run of white
  space that follows a full stop, an exclamation mark or a question mark.  The first
  argument is the current piece, reversed.
\<close>

function split_sentences :: "string \<Rightarrow> string \<Rightarrow> string list" where
  "split_sentences cur [] = [rev cur]"
| "split_sentences cur (c # cs) =
     (if is_sentence_end c \<and> cs \<noteq> [] \<and> py_isspace (hd cs)
      then rev (c # cur) # split_sentences [] (dropWhile py_isspace cs)
      else split_sentences (c # cur) cs)"
  by pat_completeness auto
termination
  by (relation "measure (\<lambda>(cur, cs). length cs)")
     (auto simp: le_imp_less_Suc length_dropWhile_le)

text \<open>Lines 1120 to 1124: one bullet per sentence, the leading bullet removed.\<close>

definition bullet_sentences :: "string \<Rightarrow> string" where
  "bullet_sentences next_steps =
     dropWhile (\<lambda>c. c = CHR ''-'' \<or> c = CHR '' '')
       (strip (join (NL @ ''- '') (split_sentences [] (strip next_steps))))"

text \<open>The loops of lines 1116, 1132 and 1136: one translated bullet per element.\<close>

fun translate_bullets :: "'c env \<Rightarrow> string \<Rightarrow> string list \<Rightarrow> exn + string" where
  "translate_bullets env l [] = Inr []"
| "translate_bullets env l (x # xs) =
     bind_exn (util_translate_text env x l) (\<lambda>t.
     bind_exn (translate_bullets env l xs) (\<lambda>r. Inr (''- '' @ t @ NL @ r)))"

definition translate_section :: "'c env \<Rightarrow> string \<Rightarrow> string \<Rightarrow> string list option \<Rightarrow> exn + string" where
  "translate_section env l heading xs =
     (case xs of
        None \<Rightarrow> Inr []
      | Some ys \<Rightarrow>
          if ys = [] then Inr []
          else bind_exn (util_translate_text env heading l) (\<lambda>h.
               bind_exn (translate_bullets env l ys) (\<lambda>r. Inr (NL @ ''**'' @ h @ '':**'' @ NL @ r))))"

text \<open>
  The string built by lines 1110 to 1137; \<open>Inl e\<close> when a translation raises \<open>e\<close>.
\<close>

definition format_assessment :: "'c env \<Rightarrow> string \<Rightarrow> assessment \<Rightarrow> exn + string" where
  "format_assessment env l a =
     bind_exn (util_translate_text env ''Preliminary Health Assessment'' l) (\<lambda>t1.
     bind_exn (util_translate_text env ''Summary'' l) (\<lambda>t2.
     bind_exn (util_translate_text env
                 (case assessment_summary a of None \<Rightarrow> ''N/A'' | Some x \<Rightarrow> x) l) (\<lambda>t3.
     bind_exn (util_translate_text env ''Suggested Severity'' l) (\<lambda>t4.
     bind_exn (util_translate_text env
                 (case suggested_severity a of None \<Rightarrow> ''N/A'' | Some x \<Rightarrow> x) l) (\<lambda>t5.
     bind_exn (util_translate_text env ''Recommended Next Steps'' l) (\<lambda>t6.
     bind_exn (case (case recommended_next_steps a of None \<Rightarrow> StepsStr ''N/A'' | Some n \<Rightarrow> n) of
                 StepsList steps \<Rightarrow> translate_bullets env l steps
               | StepsStr t \<Rightarrow>
                   bind_exn (util_translate_text env (bullet_sentences t) l) (\<lambda>r. Inr (r @ NL))
               | StepsOther \<Rightarrow>
                   bind_exn (util_translate_text env ''N/A'' l) (\<lambda>r. Inr (''- '' @ r @ NL))) (\<lambda>t7.
     bind_exn (translate_section env l ''Potential Warnings'' (potential_warnings a)) (\<lambda>t8.
     bind_exn (translate_section env l ''Relevant Triage Points from Knowledge Base''
                 (relevant_kb_triage_points a)) (\<lambda>t9.
     bind_exn (util_translate_text env ''Disclaimer'' l) (\<lambda>t10.
     bind_exn (util_translate_text env
                 (case disclaimer a of
                    None \<Rightarrow> ''Always consult a doctor for medical advice.''
                  | Some x \<Rightarrow> x) l) (\<lambda>t11.
       Inr (''<h4> '' @ t1 @ '':</h4>'' @ NL @ NL @
            ''**'' @ t2 @ '':** '' @ t3 @ NL @ NL @
            ''**'' @ t4 @ '':** '' @ t5 @ NL @ NL @
            ''**'' @ t6 @ '':**'' @ NL @ t7 @ t8 @ t9 @
            NL @ NL @ ''**'' @ t10 @ '':** '' @ t11))))))))))))"

section \<open>The turn procedures\<close>

text \<open>Sequencing: the next statement runs only when the previous one returned.\<close>

definition seq ::
  "exn option \<times> 's \<Rightarrow> ('s \<Rightarrow> exn option \<times> 's) \<Rightarrow> exn option \<times> 's" where
  "seq r f = (case r of (Some e, s) \<Rightarrow> (Some e, s) | (None, s) \<Rightarrow> f s)"

text \<open>The loops of lines 987 to 989 and 1106 to 1108.\<close>

fun add_symptoms :: "string list \<Rightarrow> string list \<Rightarrow> string list" where
  "add_symptoms [] acc = acc"
| "add_symptoms (x # xs) acc =
     add_symptoms xs (if x \<noteq> [] \<and> x \<notin> set acc then acc @ [x] else acc)"

definition FENCE :: string where
  "FENCE = replicate 3 (char_of (96 :: nat))"

text \<open>The handler of lines 1145 to 1153: the raw payload, or the serialisation error.\<close>

definition assessment_fallback ::
  "'c env \<Rightarrow> assessment \<Rightarrow> 'c session_state \<Rightarrow> exn option \<times> 'c session_state" where
  "assessment_fallback env a s =
     (case (case json_dumps env a of
              Inl e \<Rightarrow> (Some e, s)
            | Inr raw \<Rightarrow>
                persist_message_to_db env Assistant (take 2000 raw)
                  (add_message_to_conversation Assistant
                     (''Could not format assessment. Raw data:'' @ NL @ FENCE @ ''json'' @ NL @
                      raw @ NL @ FENCE) None s)) of
        (Some json_e, s1) \<Rightarrow>
          persist_message_to_db env Assistant (take 500 (exn_str json_e))
            (add_message_to_conversation Assistant
               (''Could not format or serialize assessment: '' @ exn_str json_e) None s1)
      | (None, s1) \<Rightarrow> (None, s1))"

text \<open>The body of the \<open>try\<close> of lines 1110 to 1144.\<close>

definition render_try_body ::
  "'c env \<Rightarrow> string \<Rightarrow> assessment \<Rightarrow> 'c session_state \<Rightarrow> exn option \<times> 'c session_state" where
  "render_try_body env user_lang a s =
     (case format_assessment env user_lang a of
        Inl e \<Rightarrow> (Some e, s)
      | Inr assessment_str \<Rightarrow>
          seq (persist_message_to_db env Assistant assessment_str
                 (add_message_to_conversation Assistant assessment_str None s)) (\<lambda>s1.
          seq (save_health_context_to_memory env s1) (\<lambda>s2.
            (None, s2\<lparr>last_advice_given :=
                        take 800 (case assessment_summary a of
                                    None \<Rightarrow> take 800 assessment_str
                                  | Some summary \<Rightarrow>
                                      if summary \<noteq> [] then summary
                                      else take 800 assessment_str)\<rparr>))))"

text \<open>\<open>generate_and_display_assessment\<close>, lines 1098 to 1157.\<close>

definition generate_and_display_assessment ::
  "'c env \<Rightarrow> 'c session_state \<Rightarrow> exn option \<times> 'c session_state" where
  "generate_and_display_assessment env s =
     (let user_lang = current_language_code s
      in case symptom_checker_instance s of
           None \<Rightarrow> (None, s\<lparr>voice_input_stage := None\<rparr>)
         | Some c \<Rightarrow>
             (case generate_preliminary_assessment env c of
                Inl e \<Rightarrow> (Some e, s)
              | Inr (a, c1) \<Rightarrow>
                  (let s1 = s\<lparr>symptom_checker_instance := Some c1\<rparr>;
                       s2 = s1\<lparr>extracted_symptoms :=
                                 add_symptoms (collected_symptom_details env c1)
                                   (extracted_symptoms s1)\<rparr>
                   in seq (case render_try_body env user_lang a s2 of
                             (Some e, s3) \<Rightarrow> assessment_fallback env a s3
                           | (None, s3) \<Rightarrow> (None, s3)) (\<lambda>s4.
                        (None, s4\<lparr>symptom_checker_active := False,
                                  symptom_checker_instance := None,
                                  pending_symptom_question_data := None,
                                  voice_input_stage := None\<rparr>)))))"

text \<open>
  The symptom branch of \<open>process_and_display_response\<close>, lines 992 to 1004: a checker is
  created, asked for its first question, and the question is delivered; with no question
  the assessment is generated at once.
\<close>

definition pdr_symptom_branch ::
  "'c env \<Rightarrow> string \<Rightarrow> NLUResult \<Rightarrow> 'c session_state \<Rightarrow> exn option \<times> 'c session_state" where
  "pdr_symptom_branch env user_lang nlu s =
     (let s1 = s\<lparr>symptom_checker_active := True\<rparr>
      in case SymptomChecker env nlu of
           Inl e \<Rightarrow> (Some e, s1)
         | Inr c0 \<Rightarrow>
      (let s2 = s1\<lparr>symptom_checker_instance := Some c0\<rparr>
       in case prepare_follow_up_questions env c0 of
            Inl e \<Rightarrow> (Some e, s2)
          | Inr c1 \<Rightarrow>
      (let s3 = s2\<lparr>symptom_checker_instance := Some c1\<rparr>
       in case get_next_question env c1 of
            Inl e \<Rightarrow> (Some e, s3)
          | Inr (q, c2) \<Rightarrow>
      (let s4 = s3\<lparr>symptom_checker_instance := Some c2,
                    pending_symptom_question_data := q\<rparr>
       in case q of
            Some qd \<Rightarrow>
              (case util_translate_text env (question qd) user_lang of
                 Inl e \<Rightarrow> (Some e, s4)
               | Inr qt \<Rightarrow>
                   (case util_translate_text env (symptom_name qd) user_lang of
                      Inl e \<Rightarrow> (Some e, s4)
                    | Inr sn \<Rightarrow>
                        persist_message_to_db env Assistant (qt @ '': '' @ sn)
                          (add_message_to_conversation Assistant (qt @ '': '' @ sn) None s4)))
          | None \<Rightarrow> generate_and_display_assessment env s4))))"

text \<open>The context of lines 1006 to 1019, handed to the response generator.\<close>

definition build_session_context :: "'c env \<Rightarrow> 'c session_state \<Rightarrow> session_context" where
  "build_session_context env s =
     \<lparr>ctx_extracted_symptoms = extracted_symptoms s,
      ctx_follow_up_answers = follow_up_answers s,
      ctx_last_advice_given = take 800 (last_advice_given s),
      ctx_user_profile = (if user_profile s \<noteq> [] then Some (user_profile s) else None),
      ctx_user_memory = (if persistent_memory s \<noteq> [] then Some (persistent_memory s) else None),
      ctx_past_messages =
        (if is_supabase_configured env \<and> supabase_session s \<noteq> None \<and> truthy_id (current_chat_id s)
         then (case get_recent_messages_from_other_chats env
                      (case supabase_session s of None \<Rightarrow> None | Some ss \<Rightarrow> user_id ss)
                      (case current_chat_id s of None \<Rightarrow> [] | Some c \<Rightarrow> c) 8 of
                 Inl e \<Rightarrow> []
               | Inr ms \<Rightarrow> ms)
         else [])\<rparr>"

text \<open>The other branch, lines 1006 to 1027: a generated response.\<close>

definition pdr_response_branch ::
  "'c env \<Rightarrow> string \<Rightarrow> string \<Rightarrow> NLUResult \<Rightarrow> 'c session_state \<Rightarrow> exn option \<times> 'c session_state" where
  "pdr_response_branch env user_query_text user_lang nlu s =
     (case generate_response env user_query_text nlu (build_session_context env s) of
        Inl e \<Rightarrow> (Some e, s)
      | Inr bot_response \<Rightarrow>
          (case util_translate_text env bot_response user_lang of
             Inl e \<Rightarrow> (Some e, s)
           | Inr translated \<Rightarrow>
               seq (persist_message_to_db env Assistant translated
                      (add_message_to_conversation Assistant translated None s)) (\<lambda>s1.
                 save_health_context_to_memory env
                   (s1\<lparr>last_advice_given := take 800 translated,
                       symptom_checker_active := False\<rparr>))))"

text \<open>The body of the \<open>try\<close> of \<open>process_and_display_response\<close>, lines 983 to 1027.\<close>

definition pdr_try_body ::
  "'c env \<Rightarrow> string \<Rightarrow> string \<Rightarrow> string \<Rightarrow> 'c session_state \<Rightarrow> exn option \<times> 'c session_state" where
  "pdr_try_body env user_query_text lang_code user_lang s =
     (case process_transcription env user_query_text lang_code of
        Inl e \<Rightarrow> (Some e, s)
      | Inr nlu \<Rightarrow>
          (let symptom_entities =
                 map entity_text (filter (\<lambda>e. entity_type e = ''symptom'') (entities nlu));
               s1 = s\<lparr>extracted_symptoms := add_symptoms symptom_entities (extracted_symptoms s)\<rparr>
           in if intent nlu = SYMPTOM_QUERY \<and> \<not> is_emergency nlu
              then pdr_symptom_branch env user_lang nlu s1
              else pdr_response_branch env user_query_text user_lang nlu s1))"

text \<open>
  \<open>process_and_display_response\<close>, lines 964 to 1035.  The three cached services are
  \<open>None\<close> exactly when the key is empty (lines 538 to 556), so the second guard repeats
  the first.  The handler of line 1028 appends the diagnostic and clears the symptom
  session; the \<open>finally\<close> of line 1034 resets the voice stage.
\<close>

definition process_and_display_response ::
  "'c env \<Rightarrow> string \<Rightarrow> string \<Rightarrow> 'c session_state \<Rightarrow> exn option \<times> 'c session_state" where
  "process_and_display_response env user_query_text lang_code s =
     (if SARVAM_API_KEY env = [] then
        (None, (add_message_to_conversation System ''Error: API Key not configured.'' None s)
                 \<lparr>voice_input_stage := None\<rparr>)
      else if SARVAM_API_KEY env = [] then (None, s\<lparr>voice_input_stage := None\<rparr>)
      else
        (case pdr_try_body env user_query_text lang_code (current_language_code s) s of
           (Some e, s1) \<Rightarrow>
             (None, (add_message_to_conversation System
                       ''Sorry, an error occurred while processing your request. Please try rephrasing or try again later.''
                       None s1)
                      \<lparr>symptom_checker_active := False,
                       symptom_checker_instance := None,
                       pending_symptom_question_data := None,
                       voice_input_stage := None\<rparr>)
         | (None, s1) \<Rightarrow> (None, s1\<lparr>voice_input_stage := None\<rparr>)))"

text \<open>
  The answer branch of \<open>handle_follow_up_answer\<close>, lines 1042 to 1064.  The fields are read
  again from the session after the user message is stored, as the source does; a
  subscript or a method call on \<open>None\<close> raises.
\<close>

definition follow_up_record ::
  "'c env \<Rightarrow> string \<Rightarrow> 'c session_state \<Rightarrow> exn option \<times> 'c session_state" where
  "follow_up_record env answer_text s =
     (case pending_symptom_question_data s of
        None \<Rightarrow> (Some (Error ''TypeError''), s)
      | Some p \<Rightarrow>
          (let question_asked = question p;
               sname = symptom_name p;
               s1 = s\<lparr>follow_up_answers := follow_up_answers s @
                         [\<lparr>fa_symptom_name = sname, fa_question = question_asked,
                           fa_answer = answer_text\<rparr>]\<rparr>
           in case symptom_checker_instance s1 of
                None \<Rightarrow> (Some AttributeError, s1)
              | Some c \<Rightarrow>
                  (case record_answer env c sname question_asked answer_text of
                     Inl e \<Rightarrow> (Some e, s1)
                   | Inr c1 \<Rightarrow>
                       (let s2 = s1\<lparr>symptom_checker_instance := Some c1\<rparr>
                        in case get_next_question env c1 of
                             Inl e \<Rightarrow> (Some e, s2)
                           | Inr (q, c2) \<Rightarrow>
                               (None, s2\<lparr>symptom_checker_instance := Some c2,
                                         pending_symptom_question_data := q\<rparr>)))))"

definition follow_up_next ::
  "'c env \<Rightarrow> string \<Rightarrow> 'c session_state \<Rightarrow> exn option \<times> 'c session_state" where
  "follow_up_next env user_lang s =
     (case pending_symptom_question_data s of
        Some qd \<Rightarrow>
          (case util_translate_text env (question qd) user_lang of
             Inl e \<Rightarrow> (Some e, s)
           | Inr qt \<Rightarrow>
               (case util_translate_text env (symptom_name qd) user_lang of
                  Inl e \<Rightarrow> (Some e, s)
                | Inr sn \<Rightarrow>
                    persist_message_to_db env Assistant (sn @ '': '' @ qt)
                      (add_message_to_conversation Assistant (sn @ '': '' @ qt) None s)))
      | None \<Rightarrow> generate_and_display_assessment env s)"

text \<open>\<open>handle_follow_up_answer\<close>, lines 1037 to 1068.  There is no \<open>try\<close> in it.\<close>

definition handle_follow_up_answer ::
  "'c env \<Rightarrow> string \<Rightarrow> 'c session_state \<Rightarrow> exn option \<times> 'c session_state" where
  "handle_follow_up_answer env answer_text s =
     (let user_lang = current_language_code s
      in seq (if symptom_checker_instance s \<noteq> None \<and> pending_symptom_question_data s \<noteq> None
              then
                seq (persist_message_to_db env User answer_text
                       (add_message_to_conversation User answer_text
                          (Some (split_dash_first (current_language_code s))) s)) (\<lambda>s1.
                seq (follow_up_record env answer_text s1) (\<lambda>s2.
                  follow_up_next env user_lang s2))
              else (None, s\<lparr>symptom_checker_active := False\<rparr>)) (\<lambda>s3.
           (None, s3\<lparr>voice_input_stage := None\<rparr>)))"

text \<open>\<open>handle_text_submission\<close>, lines 1071 to 1095, the callback of the Send button.\<close>

definition handle_text_submission ::
  "'c env \<Rightarrow> 'c session_state \<Rightarrow> exn option \<times> 'c session_state" where
  "handle_text_submission env s =
     (let user_input = strip (text_query_input_area s);
          current_lang_code = current_language_code s
      in if user_input = [] then (None, s)
         else
           seq (if symptom_checker_active s \<and> pending_symptom_question_data s \<noteq> None
                then handle_follow_up_answer env user_input s
                else
                  seq (persist_message_to_db env User user_input
                         (add_message_to_conversation User user_input
                            (Some (split_dash_first current_lang_code)) s)) (\<lambda>s1.
                    process_and_display_response env user_input current_lang_code
                      (if symptom_checker_active s1
                       then s1\<lparr>symptom_checker_active := False,
                               symptom_checker_instance := None,
                               pending_symptom_question_data := None\<rparr>
                       else s1))) (\<lambda>s2.
             (None, s2\<lparr>text_query_input_area := []\<rparr>)))"

section \<open>The voice pipeline\<close>

text \<open>The warning sign and its variation selector of line 1196, in UTF-8.\<close>

definition WARNING_SIGN :: string where
  "WARNING_SIGN = map char_of [226, 154, 160, 239, 184, 143 :: nat]"

text \<open>Lines 1160 to 1174: the captured recording is decoded and cleaned.\<close>

definition capture_and_clean ::
  "'c env \<Rightarrow> 'c session_state \<Rightarrow> exn option \<times> 'c session_state" where
  "capture_and_clean env s =
     (case captured_audio_data s of
        None \<Rightarrow> (None, s)
      | Some bytes \<Rightarrow>
          (case sf_read env bytes of
             Inl e \<Rightarrow> (Some e, s)
           | Inr (data, sr) \<Rightarrow>
               (case get_cleaned_audio env data sr of
                  Inl e \<Rightarrow> (Some e, s)
                | Inr (cleaned_data, cleaned_sr) \<Rightarrow>
                    (None, s\<lparr>cleaned_audio_data := Some cleaned_data,
                             captured_audio_sample_rate := cleaned_sr,
                             voice_input_stage := Some Processing_stt\<rparr>))))"

text \<open>
  The text handed to the emptiness test of line 1191: the transcription, translated
  first when the detected language is not the session's (lines 1185 to 1190).
\<close>

definition normalise_transcription :: "'c env \<Rightarrow> string \<Rightarrow> stt_result \<Rightarrow> exn + string" where
  "normalise_transcription env lang_for_stt r =
     (if Some lang_for_stt \<noteq> language_detected r then
        (if lang_for_stt = ''en-IN'' then util_translate_text_to_english env (transcription r)
         else util_translate_text env (transcription r) lang_for_stt)
      else Inr (transcription r))"

text \<open>The body of the \<open>try\<close> of lines 1180 to 1196.\<close>

definition stt_try_body ::
  "'c env \<Rightarrow> string \<Rightarrow> int list \<Rightarrow> 'c session_state \<Rightarrow> exn option \<times> 'c session_state" where
  "stt_try_body env lang_for_stt audio s =
     (case util_transcribe_audio env audio (captured_audio_sample_rate s) lang_for_stt of
        Inl e \<Rightarrow> (Some e, s)
      | Inr r \<Rightarrow>
          (case normalise_transcription env lang_for_stt r of
             Inl e \<Rightarrow> (Some e, s)
           | Inr transcribed_text \<Rightarrow>
               if transcribed_text \<noteq> [] \<and> strip transcribed_text \<noteq> [] then
                 seq (persist_message_to_db env User transcribed_text
                        (add_message_to_conversation User transcribed_text
                           (Some (split_dash_first lang_for_stt)) s))
                   (process_and_display_response env transcribed_text lang_for_stt)
               else
                 (None, add_message_to_conversation System
                          (WARNING_SIGN @ '' STT failed to transcribe audio or returned empty. Please try again.'')
                          None s)))"

text \<open>Lines 1176 to 1206: transcription and dispatch, then the unconditional reset.\<close>

definition process_stt ::
  "'c env \<Rightarrow> 'c session_state \<Rightarrow> exn option \<times> 'c session_state" where
  "process_stt env s =
     (if voice_input_stage s = Some Processing_stt then
        (case cleaned_audio_data s of
           Some audio \<Rightarrow>
             (let s1 = (case stt_try_body env (current_language_code s) audio s of
                          (Some e, s') \<Rightarrow>
                            add_message_to_conversation System
                              (''Sorry, an error occurred during voice transcription. Please try again. (Details: ''
                               @ exn_str e @ '')'') None s'
                        | (None, s') \<Rightarrow> s')
              in (None, s1\<lparr>captured_audio_data := None,
                           cleaned_audio_data := None,
                           voice_input_stage := None\<rparr>))
         | None \<Rightarrow> (None, s\<lparr>voice_input_stage := None\<rparr>))
      else (None, s))"

definition voice_pipeline ::
  "'c env \<Rightarrow> 'c session_state \<Rightarrow> exn option \<times> 'c session_state" where
  "voice_pipeline env s = seq (capture_and_clean env s) (process_stt env)"

section \<open>The other handlers of the page and the reachable states\<close>

text \<open>The initial session of lines 121 to 176.\<close>

definition init_state :: "'c session_state" where
  "init_state =
     \<lparr>conversation = [], current_language_display = ''English'',
      current_language_code = ''en-IN'', text_query_input_area = [],
      symptom_checker_active = False, symptom_checker_instance = None,
      pending_symptom_question_data = None, voice_input_stage = None,
      captured_audio_data = None, cleaned_audio_data = None,
      captured_audio_sample_rate = 48000, extracted_symptoms = [],
      follow_up_answers = [], last_advice_given = [], user_profile = [],
      supabase_session = None, chat_list = [], current_chat_id = None,
      persistent_memory = []\<rparr>"

text \<open>The language selector, lines 854 to 867; \<open>code\<close> is \<open>LANGUAGE_MAP[selected]\<close>.\<close>

definition language_change :: "string \<Rightarrow> string \<Rightarrow> 'c session_state \<Rightarrow> 'c session_state" where
  "language_change selected code s =
     (if selected \<noteq> current_language_display s then
        s\<lparr>current_language_display := selected, current_language_code := code,
          conversation := [], symptom_checker_active := False,
          symptom_checker_instance := None, pending_symptom_question_data := None,
          voice_input_stage := None, extracted_symptoms := [], follow_up_answers := [],
          last_advice_given := [], user_profile := []\<rparr>
      else s)"

text \<open>The button that clears the session, lines 1481 to 1490.\<close>

definition clear_session :: "'c session_state \<Rightarrow> 'c session_state" where
  "clear_session s =
     s\<lparr>conversation := [], extracted_symptoms := [], follow_up_answers := [],
       last_advice_given := [], user_profile := [], symptom_checker_active := False,
       symptom_checker_instance := None, pending_symptom_question_data := None\<rparr>"

text \<open>
  One interaction of the user with the page: typing in the text area, the Send button,
  a recording returned by the microphone widget (line 1338) followed by the rerun that
  processes it, a plain rerun, the language selector, the clear button, and the handlers
  that replace the conversation, the account or the profile (lines 737, 772 to 776, 836
  to 847, 930, 1463 to 1468).  An exception that leaves a handler ends the run; the
  session keeps the state reached.
\<close>

datatype 'c event =
    Type_text string
  | Click_send "'c env"
  | Record_voice "'c env" "nat list"
  | Rerun "'c env"
  | Select_language string string
  | Clear_session
  | New_chat
  | Load_chat "message list" string
  | Sign_in supabase_session_data "string list" "(string \<times> string) list" "(string \<times> string) list"
  | Sign_out
  | Save_profile "(string \<times> string) list"

fun step :: "'c event \<Rightarrow> 'c session_state \<Rightarrow> 'c session_state" where
  "step (Type_text t) s = s\<lparr>text_query_input_area := t\<rparr>"
| "step (Click_send env) s = snd (handle_text_submission env s)"
| "step (Record_voice env bytes) s = snd (voice_pipeline env (s\<lparr>captured_audio_data := Some bytes\<rparr>))"
| "step (Rerun env) s = snd (voice_pipeline env s)"
| "step (Select_language selected code) s = language_change selected code s"
| "step Clear_session s = clear_session s"
| "step New_chat s = s\<lparr>current_chat_id := None, conversation := []\<rparr>"
| "step (Load_chat msgs cid) s = s\<lparr>conversation := msgs, current_chat_id := Some cid\<rparr>"
| "step (Sign_in ss chats mem prof) s =
     s\<lparr>supabase_session := Some ss, chat_list := chats, persistent_memory := mem,
       user_profile := prof\<rparr>"
| "step Sign_out s =
     s\<lparr>supabase_session := None, chat_list := [], current_chat_id := None,
       conversation := [], persistent_memory := []\<rparr>"
| "step (Save_profile prof) s = s\<lparr>user_profile := prof\<rparr>"

fun run :: "'c event list \<Rightarrow> 'c session_state \<Rightarrow> 'c session_state" where
  "run [] s = s"
| "run (ev # evs) s = run evs (step ev s)"

text \<open>A state is reachable when some sequence of interactions leads to it.\<close>

definition reachable :: "'c session_state \<Rightarrow> bool" where
  "reachable s = (\<exists>evs. s = run evs init_state)"

section \<open>Notions used by the properties\<close>

text \<open>The user-role messages of the conversation log, in order.\<close>

definition user_messages :: "'c session_state \<Rightarrow> message list" where
  "user_messages s = filter (\<lambda>m. role m = User) (conversation s)"

definition system_messages :: "'c session_state \<Rightarrow> message list" where
  "system_messages s = filter (\<lambda>m. role m = System) (conversation s)"

text \<open>The session after the two persistence helpers have returned.\<close>

definition persisted :: "'c env \<Rightarrow> role \<Rightarrow> string \<Rightarrow> 'c session_state \<Rightarrow> 'c session_state" where
  "persisted env r c s = snd (persist_message_to_db env r c s)"

definition health_saved :: "'c env \<Rightarrow> 'c session_state \<Rightarrow> 'c session_state" where
  "health_saved env s = snd (save_health_context_to_memory env s)"

text \<open>Two sessions that differ at most in the fields a persistence helper writes.\<close>

definition chat_frame :: "'c session_state \<Rightarrow> 'c session_state \<Rightarrow> bool" where
  "chat_frame s s' = (\<exists>cid cl. s' = s\<lparr>current_chat_id := cid, chat_list := cl\<rparr>)"

definition memory_frame :: "'c session_state \<Rightarrow> 'c session_state \<Rightarrow> bool" where
  "memory_frame s s' = (\<exists>m. s' = s\<lparr>persistent_memory := m\<rparr>)"

text \<open>
  The content of the assistant message that closes an interview: the rendered assessment,
  or the raw payload when rendering raises, or the serialisation error when that raises
  too.
\<close>

definition assessment_reply :: "'c env \<Rightarrow> string \<Rightarrow> assessment \<Rightarrow> string" where
  "assessment_reply env user_lang a =
     (case format_assessment env user_lang a of
        Inr assessment_str \<Rightarrow> assessment_str
      | Inl e \<Rightarrow>
          (case json_dumps env a of
             Inr raw \<Rightarrow>
               ''Could not format assessment. Raw data:'' @ NL @ FENCE @ ''json'' @ NL @
               raw @ NL @ FENCE
           | Inl json_e \<Rightarrow> ''Could not format or serialize assessment: '' @ exn_str json_e))"

definition assistant_message :: "string \<Rightarrow> message" where
  "assistant_message c = \<lparr>role = Assistant, content = c, lang = None\<rparr>"

definition user_message :: "string \<Rightarrow> string \<Rightarrow> message" where
  "user_message lang_code c =
     \<lparr>role = User, content = c,
      lang = (if split_dash_first lang_code \<noteq> [] then Some (split_dash_first lang_code)
              else None)\<rparr>"





text \<open>A pending question comes with the checker instance that asked it.\<close>

definition has_checker :: "'c session_state \<Rightarrow> bool" where
  "has_checker s =
     (pending_symptom_question_data s = None \<or> symptom_checker_instance s \<noteq> None)"

text \<open>The list \<open>new\<close> is \<open>old\<close> after some run of the membership-checked insertion.\<close>

definition grows :: "string list \<Rightarrow> string list \<Rightarrow> bool" where
  "grows old new = (\<exists>xs. new = add_symptoms xs old)"

section \<open>A concrete environment\<close>

text \<open>
  A small instance of the collaborators, used to run the procedures on concrete turns:
  the checker is the list of the questions it has still to ask, the NLU engine reports a
  symptom query for the text \<open>fever\<close> and a general query otherwise, translation is the
  identity, and the backend is not configured.
\<close>

definition q_since :: question_data where
  "q_since = \<lparr>question = ''Since when?'', symptom_name = ''fever''\<rparr>"

definition q_temp :: question_data where
  "q_temp = \<lparr>question = ''How high?'', symptom_name = ''fever''\<rparr>"

definition demo_assessment :: assessment where
  "demo_assessment =
     \<lparr>assessment_summary = Some ''Mild fever'', suggested_severity = Some ''low'',
      recommended_next_steps = Some (StepsStr ''Rest. Drink water.''),
      potential_warnings = None, relevant_kb_triage_points = None,
      disclaimer = None\<rparr>"

definition demo_nlu :: "string \<Rightarrow> NLUResult" where
  "demo_nlu t =
     (if t = ''fever''
      then \<lparr>intent = SYMPTOM_QUERY, is_emergency = False,
            entities = [\<lparr>entity_text = ''fever'', entity_type = ''symptom''\<rparr>]\<rparr>
      else \<lparr>intent = OTHER_INTENT, is_emergency = False, entities = []\<rparr>)"

definition demo_env :: "question_data list env" where
  "demo_env =
     \<lparr>SARVAM_API_KEY = ''key'',
      is_supabase_configured = False,
      process_transcription = (\<lambda>t l. Inr (demo_nlu t)),
      SymptomChecker = (\<lambda>nlu. Inr [q_since, q_temp]),
      prepare_follow_up_questions = (\<lambda>c. Inr c),
      get_next_question = (\<lambda>c. Inr (case c of [] \<Rightarrow> None | q # qs \<Rightarrow> Some q, tl c)),
      record_answer = (\<lambda>c sn q a. Inr c),
      generate_preliminary_assessment = (\<lambda>c. Inr (demo_assessment, c)),
      collected_symptom_details = (\<lambda>c. [''fever'']),
      generate_response = (\<lambda>t nlu ctx. Inr ''Drink water.''),
      translate_text = (\<lambda>t l. Inr t),
      translate_text_to_english = (\<lambda>t. Inr t),
      transcribe_audio = (\<lambda>a sr l. Inr \<lparr>transcription = ''yes'', language_detected = Some l\<rparr>),
      json_dumps = (\<lambda>a. Inr ''{}''),
      chat_create = (\<lambda>uid title. Inr (Some ''chat-1'')),
      chats_list = (\<lambda>uid. Inr [''chat-1'']),
      message_insert = (\<lambda>cid r c. Inr True),
      user_memory_upsert = (\<lambda>uid k v. Inr True),
      get_recent_messages_from_other_chats = (\<lambda>uid cid n. Inr []),
      sf_read = (\<lambda>bytes. Inr ([], 48000)),
      get_cleaned_audio = (\<lambda>d sr. Inr (d, sr))\<rparr>"

text \<open>The session after the user has typed \<open>fever\<close> and pressed Send: a question is pending.\<close>

definition interview_state :: "question_data list session_state" where
  "interview_state = run [Type_text ''fever'', Click_send demo_env] init_state"

text \<open>
  The helpers on a signed-in session whose backend raises on every call: the message
  appended before stays in the log and the helpers return.
\<close>

definition failing_backend :: "question_data list env" where
  "failing_backend =
     demo_env\<lparr>is_supabase_configured := True,
              chat_create := (\<lambda>uid title. Inl (Error ''backend down'')),
              message_insert := (\<lambda>cid r c. Inl (Error ''backend down'')),
              user_memory_upsert := (\<lambda>uid k v. Inl (Error ''backend down''))\<rparr>"

definition signed_in_state :: "question_data list session_state" where
  "signed_in_state =
     (add_message_to_conversation User ''hello'' (Some ''en'') init_state)
       \<lparr>supabase_session :=
          Some \<lparr>user_id = Some ''u1'', access_token = ''a'', refresh_token = ''r''\<rparr>,
        extracted_symptoms := [''fever'']\<rparr>"

text \<open>The same environment with a translation service that raises on every call.\<close>

definition translation_down :: "question_data list env" where
  "translation_down = demo_env\<lparr>translate_text := (\<lambda>t l. Inl (Error ''translation down''))\<rparr>"

text \<open>A session whose checker has asked all its questions.\<close>

definition exhausted_state :: "question_data list session_state" where
  "exhausted_state =
     init_state\<lparr>symptom_checker_active := True, symptom_checker_instance := Some []\<rparr>"

text \<open>
  What every response leaves alone: the user messages and the language of the session;
  the extracted symptoms only grow by checked insertions, and a pending question keeps
  its checker.
\<close>

definition kept :: "'c session_state \<Rightarrow> string list \<Rightarrow> 'c session_state \<Rightarrow> bool" where
  "kept s xs s' =
     (user_messages s' = user_messages s \<and>
      current_language_code s' = current_language_code s \<and>
      (grows xs (extracted_symptoms s) \<longrightarrow> grows xs (extracted_symptoms s')) \<and>
      (has_checker s \<longrightarrow> has_checker s'))"

text \<open>The same, for a handler that stores the user messages \<open>ms\<close> first.\<close>

definition said ::
  "'c session_state \<Rightarrow> string list \<Rightarrow> message list \<Rightarrow> 'c session_state \<Rightarrow> bool" where
  "said s xs ms s' =
     (user_messages s' = user_messages s @ ms \<and>
      current_language_code s' = current_language_code s \<and>
      (grows xs (extracted_symptoms s) \<longrightarrow> grows xs (extracted_symptoms s')) \<and>
      (has_checker s \<longrightarrow> has_checker s'))"

text \<open>
  The user messages that the transcription stage stores: the transcribed text, when the
  stage is due, the transcription succeeds and the normalised text is not blank.
\<close>

definition stt_user_messages :: "'c env \<Rightarrow> 'c session_state \<Rightarrow> message list" where
  "stt_user_messages env s =
     (if voice_input_stage s = Some Processing_stt then
        (case cleaned_audio_data s of
           None \<Rightarrow> []
         | Some audio \<Rightarrow>
             (case util_transcribe_audio env audio (captured_audio_sample_rate s)
                     (current_language_code s) of
                Inl e \<Rightarrow> []
              | Inr r \<Rightarrow>
                  (case normalise_transcription env (current_language_code s) r of
                     Inl e \<Rightarrow> []
                   | Inr t \<Rightarrow>
                       if t \<noteq> [] \<and> strip t \<noteq> []
                       then [user_message (current_language_code s) t] else [])))
      else [])"




text \<open>The same environment with a checker whose \<open>record_answer\<close> raises.\<close>

definition checker_down :: "question_data list env" where
  "checker_down = demo_env\<lparr>record_answer := (\<lambda>c sn q a. Inl (Error ''checker down''))\<rparr>"

section \<open>Sequencing and the persistence helpers\<close>

lemma seq_None: "seq (None, s) f = f s"
  by (simp add: seq_def)

lemma seq_Some: "seq (Some e, s) f = (Some e, s)"
  by (simp add: seq_def)

lemma chat_frame_refl: "chat_frame s s"
  unfolding chat_frame_def
  by (rule exI [of _ "current_chat_id s"], rule exI [of _ "chat_list s"]) simp

lemma chat_frame_cid: "chat_frame s (s\<lparr>current_chat_id := cid\<rparr>)"
  unfolding chat_frame_def
  by (rule exI [of _ cid], rule exI [of _ "chat_list s"]) simp

lemma chat_frame_both: "chat_frame s (s\<lparr>current_chat_id := cid, chat_list := cl\<rparr>)"
  unfolding chat_frame_def by blast

lemma persist_create_chat_frame: "chat_frame s (snd (snd (persist_create_chat env c s)))"
  by (simp add: persist_create_chat_def Let_def chat_frame_refl chat_frame_cid chat_frame_both
           split: sum.split)

lemma persist_try_body_frame: "chat_frame s (snd (persist_try_body env r c s))"
proof -
  have "snd (persist_try_body env r c s) = snd (snd (persist_create_chat env c s))"
    by (simp add: persist_try_body_def split: prod.split option.split sum.split)
  then show ?thesis
    using persist_create_chat_frame [of s env c] by simp
qed

lemma persist_returns: "fst (persist_message_to_db env r c s) = None"
  by (simp add: persist_message_to_db_def split: prod.split option.split)

lemma persist_frame: "chat_frame s (persisted env r c s)"
proof (cases "\<not> is_supabase_configured env \<or> supabase_session s = None")
  case True
  then show ?thesis
    by (simp add: persisted_def persist_message_to_db_def chat_frame_refl)
next
  case False
  then have "persisted env r c s = snd (persist_try_body env r c s)"
    by (auto simp: persisted_def persist_message_to_db_def split: prod.split option.split)
  then show ?thesis
    using persist_try_body_frame [of s env r c] by simp
qed

lemma persist_eq: "persist_message_to_db env r c s = (None, persisted env r c s)"
  using persist_returns [of env r c s] by (simp add: persisted_def prod_eq_iff)

lemma memory_frame_refl: "memory_frame s s"
  unfolding memory_frame_def
  by (rule exI [of _ "persistent_memory s"]) simp

lemma memory_frame_upd: "memory_frame s (s\<lparr>persistent_memory := m\<rparr>)"
  unfolding memory_frame_def by blast

lemma memory_frame_upd2:
  "memory_frame s (s\<lparr>persistent_memory := m, persistent_memory := m'\<rparr>)"
  unfolding memory_frame_def by (rule exI [of _ m']) simp

lemma save_health_try_body_frame: "memory_frame s (snd (save_health_try_body env s))"
  by (simp add: save_health_try_body_def Let_def memory_frame_refl memory_frame_upd
        split: sum.split)

lemma save_health_returns: "fst (save_health_context_to_memory env s) = None"
  by (simp add: save_health_context_to_memory_def split: prod.split option.split)

lemma save_health_frame: "memory_frame s (health_saved env s)"
proof (cases "\<not> is_supabase_configured env \<or> supabase_session s = None")
  case True
  then show ?thesis
    by (simp add: health_saved_def save_health_context_to_memory_def memory_frame_refl)
next
  case False
  then have "health_saved env s = snd (save_health_try_body env s)"
    by (auto simp: health_saved_def save_health_context_to_memory_def
          split: prod.split option.split)
  then show ?thesis
    using save_health_try_body_frame [of s env] by simp
qed

lemma save_health_eq: "save_health_context_to_memory env s = (None, health_saved env s)"
  using save_health_returns [of env s] by (simp add: health_saved_def prod_eq_iff)

lemma persisted_fields:
  "conversation (persisted env r c s) = conversation s"
  "current_language_code (persisted env r c s) = current_language_code s"
  "text_query_input_area (persisted env r c s) = text_query_input_area s"
  "symptom_checker_active (persisted env r c s) = symptom_checker_active s"
  "symptom_checker_instance (persisted env r c s) = symptom_checker_instance s"
  "pending_symptom_question_data (persisted env r c s) = pending_symptom_question_data s"
  "voice_input_stage (persisted env r c s) = voice_input_stage s"
  "captured_audio_data (persisted env r c s) = captured_audio_data s"
  "cleaned_audio_data (persisted env r c s) = cleaned_audio_data s"
  "extracted_symptoms (persisted env r c s) = extracted_symptoms s"
  "follow_up_answers (persisted env r c s) = follow_up_answers s"
  "last_advice_given (persisted env r c s) = last_advice_given s"
  using persist_frame [of s env r c] by (auto simp: chat_frame_def)

lemma health_saved_fields:
  "conversation (health_saved env s) = conversation s"
  "current_language_code (health_saved env s) = current_language_code s"
  "text_query_input_area (health_saved env s) = text_query_input_area s"
  "symptom_checker_active (health_saved env s) = symptom_checker_active s"
  "symptom_checker_instance (health_saved env s) = symptom_checker_instance s"
  "pending_symptom_question_data (health_saved env s) = pending_symptom_question_data s"
  "voice_input_stage (health_saved env s) = voice_input_stage s"
  "captured_audio_data (health_saved env s) = captured_audio_data s"
  "cleaned_audio_data (health_saved env s) = cleaned_audio_data s"
  "extracted_symptoms (health_saved env s) = extracted_symptoms s"
  "follow_up_answers (health_saved env s) = follow_up_answers s"
  "last_advice_given (health_saved env s) = last_advice_given s"
  using save_health_frame [of s env] by (auto simp: memory_frame_def)

section \<open>The membership-checked insertion\<close>

lemma add_symptoms_append:
  "add_symptoms (xs @ ys) acc = add_symptoms ys (add_symptoms xs acc)"
  by (induction xs arbitrary: acc) simp_all

lemma distinct_add_symptoms: "distinct acc \<Longrightarrow> distinct (add_symptoms xs acc)"
  by (induction xs arbitrary: acc) simp_all

lemma prefix_add_symptoms: "prefix acc (add_symptoms xs acc)"
proof (induction xs arbitrary: acc)
  case Nil
  show ?case by simp
next
  case (Cons x xs)
  have "prefix acc (if x \<noteq> [] \<and> x \<notin> set acc then acc @ [x] else acc)"
    by simp
  also have "prefix \<dots> (add_symptoms (x # xs) acc)"
    using Cons.IH by simp
  finally show ?case .
qed

lemma grows_refl: "grows xs xs"
  unfolding grows_def by (rule exI [of _ "[]"]) simp

lemma grows_add: "grows xs (add_symptoms ys xs)"
  unfolding grows_def by blast

lemma grows_trans: "grows xs ys \<Longrightarrow> grows ys zs \<Longrightarrow> grows xs zs"
  unfolding grows_def using add_symptoms_append by metis

lemma grows_distinct: "grows xs ys \<Longrightarrow> distinct xs \<Longrightarrow> distinct ys"
  unfolding grows_def using distinct_add_symptoms by blast

lemma grows_prefix: "grows xs ys \<Longrightarrow> prefix xs ys"
  unfolding grows_def using prefix_add_symptoms by blast

section \<open>The assessment\<close>

lemma gda_no_instance:
  "symptom_checker_instance s = None \<Longrightarrow>
   generate_and_display_assessment env s = (None, s\<lparr>voice_input_stage := None\<rparr>)"
  by (simp add: generate_and_display_assessment_def)

lemma gda_raises:
  "symptom_checker_instance s = Some c \<Longrightarrow> generate_preliminary_assessment env c = Inl e \<Longrightarrow>
   generate_and_display_assessment env s = (Some e, s)"
  by (simp add: generate_and_display_assessment_def)

lemma render_or_fallback:
  "\<exists>s'. (case render_try_body env l a s of
            (Some e, s3) \<Rightarrow> assessment_fallback env a s3
          | (None, s3) \<Rightarrow> (None, s3)) = (None, s') \<and>
         conversation s' = conversation s @ [assistant_message (assessment_reply env l a)] \<and>
         current_language_code s' = current_language_code s \<and>
         text_query_input_area s' = text_query_input_area s \<and>
         captured_audio_data s' = captured_audio_data s \<and>
         cleaned_audio_data s' = cleaned_audio_data s \<and>
         extracted_symptoms s' = extracted_symptoms s \<and>
         follow_up_answers s' = follow_up_answers s"
  by (simp add: render_try_body_def assessment_fallback_def assessment_reply_def
        assistant_message_def add_message_to_conversation_def persist_eq save_health_eq
        seq_None persisted_fields health_saved_fields
        split: sum.split)

lemma gda_done:
  assumes "symptom_checker_instance s = Some c"
    and "generate_preliminary_assessment env c = Inr (a, c1)"
  shows "fst (generate_and_display_assessment env s) = None"
    and "conversation (snd (generate_and_display_assessment env s)) =
           conversation s @ [assistant_message (assessment_reply env (current_language_code s) a)]"
    and "\<not> symptom_checker_active (snd (generate_and_display_assessment env s))"
    and "symptom_checker_instance (snd (generate_and_display_assessment env s)) = None"
    and "pending_symptom_question_data (snd (generate_and_display_assessment env s)) = None"
    and "voice_input_stage (snd (generate_and_display_assessment env s)) = None"
    and "extracted_symptoms (snd (generate_and_display_assessment env s)) =
           add_symptoms (collected_symptom_details env c1) (extracted_symptoms s)"
    and "current_language_code (snd (generate_and_display_assessment env s)) =
           current_language_code s"
    and "text_query_input_area (snd (generate_and_display_assessment env s)) =
           text_query_input_area s"
    and "captured_audio_data (snd (generate_and_display_assessment env s)) =
           captured_audio_data s"
    and "cleaned_audio_data (snd (generate_and_display_assessment env s)) =
           cleaned_audio_data s"
    and "follow_up_answers (snd (generate_and_display_assessment env s)) =
           follow_up_answers s"
proof -
  define s2 where "s2 = s\<lparr>symptom_checker_instance := Some c1,
    extracted_symptoms := add_symptoms (collected_symptom_details env c1) (extracted_symptoms s)\<rparr>"
  obtain s' where s': "(case render_try_body env (current_language_code s) a s2 of
            (Some e, s3) \<Rightarrow> assessment_fallback env a s3
          | (None, s3) \<Rightarrow> (None, s3)) = (None, s')"
      "conversation s' = conversation s2 @ [assistant_message (assessment_reply env (current_language_code s) a)]"
      "current_language_code s' = current_language_code s2"
      "text_query_input_area s' = text_query_input_area s2"
      "captured_audio_data s' = captured_audio_data s2"
      "cleaned_audio_data s' = cleaned_audio_data s2"
      "extracted_symptoms s' = extracted_symptoms s2"
      "follow_up_answers s' = follow_up_answers s2"
    using render_or_fallback [where env = env and l = "current_language_code s" and a = a and s = s2]
    by blast
  have eq: "generate_and_display_assessment env s =
      (None, s'\<lparr>symptom_checker_active := False, symptom_checker_instance := None,
                pending_symptom_question_data := None, voice_input_stage := None\<rparr>)"
    using assms s'(1) by (simp add: generate_and_display_assessment_def Let_def s2_def seq_None)
  show "fst (generate_and_display_assessment env s) = None"
    and "conversation (snd (generate_and_display_assessment env s)) =
           conversation s @ [assistant_message (assessment_reply env (current_language_code s) a)]"
    and "\<not> symptom_checker_active (snd (generate_and_display_assessment env s))"
    and "symptom_checker_instance (snd (generate_and_display_assessment env s)) = None"
    and "pending_symptom_question_data (snd (generate_and_display_assessment env s)) = None"
    and "voice_input_stage (snd (generate_and_display_assessment env s)) = None"
    and "extracted_symptoms (snd (generate_and_display_assessment env s)) =
           add_symptoms (collected_symptom_details env c1) (extracted_symptoms s)"
    and "current_language_code (snd (generate_and_display_assessment env s)) =
           current_language_code s"
    and "text_query_input_area (snd (generate_and_display_assessment env s)) =
           text_query_input_area s"
    and "captured_audio_data (snd (generate_and_display_assessment env s)) =
           captured_audio_data s"
    and "cleaned_audio_data (snd (generate_and_display_assessment env s)) =
           cleaned_audio_data s"
    and "follow_up_answers (snd (generate_and_display_assessment env s)) =
           follow_up_answers s"
    using s'(2-) by (simp_all add: eq s2_def)
qed

section \<open>What a turn leaves alone\<close>

lemma user_messages_add:
  "user_messages (add_message_to_conversation r c l s) =
     user_messages s @
       (if r = User
        then [\<lparr>role = User, content = c,
               lang = (case l of None \<Rightarrow> None | Some x \<Rightarrow> if x \<noteq> [] then Some x else None)\<rparr>]
        else [])"
  by (cases l) (simp_all add: user_messages_def add_message_to_conversation_def)

lemma user_messages_persisted: "user_messages (persisted env r c s) = user_messages s"
  by (simp add: user_messages_def persisted_fields)

lemma user_messages_health_saved: "user_messages (health_saved env s) = user_messages s"
  by (simp add: user_messages_def health_saved_fields)

lemma has_checker_persisted: "has_checker (persisted env r c s) = has_checker s"
  by (simp add: has_checker_def persisted_fields)

lemma has_checker_health_saved: "has_checker (health_saved env s) = has_checker s"
  by (simp add: has_checker_def health_saved_fields)

lemma add_message_fields:
  "current_language_code (add_message_to_conversation r c l s) = current_language_code s"
  "text_query_input_area (add_message_to_conversation r c l s) = text_query_input_area s"
  "symptom_checker_active (add_message_to_conversation r c l s) = symptom_checker_active s"
  "symptom_checker_instance (add_message_to_conversation r c l s) = symptom_checker_instance s"
  "pending_symptom_question_data (add_message_to_conversation r c l s) =
     pending_symptom_question_data s"
  "voice_input_stage (add_message_to_conversation r c l s) = voice_input_stage s"
  "captured_audio_data (add_message_to_conversation r c l s) = captured_audio_data s"
  "cleaned_audio_data (add_message_to_conversation r c l s) = cleaned_audio_data s"
  "extracted_symptoms (add_message_to_conversation r c l s) = extracted_symptoms s"
  "follow_up_answers (add_message_to_conversation r c l s) = follow_up_answers s"
  "has_checker (add_message_to_conversation r c l s) = has_checker s"
  by (simp_all add: add_message_to_conversation_def has_checker_def)

lemma gda_effect:
  "user_messages (snd (generate_and_display_assessment env s)) = user_messages s"
  "current_language_code (snd (generate_and_display_assessment env s)) = current_language_code s"
  "grows xs (extracted_symptoms s) \<Longrightarrow>
     grows xs (extracted_symptoms (snd (generate_and_display_assessment env s)))"
  "has_checker s \<Longrightarrow> has_checker (snd (generate_and_display_assessment env s))"
proof -
  let ?s' = "snd (generate_and_display_assessment env s)"
  have "user_messages ?s' = user_messages s \<and>
        current_language_code ?s' = current_language_code s \<and>
        (grows xs (extracted_symptoms s) \<longrightarrow> grows xs (extracted_symptoms ?s')) \<and>
        (has_checker s \<longrightarrow> has_checker ?s')"
  proof (cases "symptom_checker_instance s")
    case None
    then show ?thesis
      by (simp add: gda_no_instance user_messages_def has_checker_def)
  next
    case (Some c)
    show ?thesis
    proof (cases "generate_preliminary_assessment env c")
      case (Inl e)
      with Some show ?thesis by (simp add: gda_raises)
    next
      case (Inr p)
      obtain a c1 where p: "p = (a, c1)" by (cases p)
      note d = gda_done [OF Some Inr [unfolded p]]
      have "grows (extracted_symptoms s) (extracted_symptoms ?s')"
        by (simp add: d(7) grows_add)
      then show ?thesis
        using grows_trans [of xs "extracted_symptoms s" "extracted_symptoms ?s'"]
        by (simp add: user_messages_def d(2) d(8) has_checker_def d(5) assistant_message_def)
    qed
  qed
  then show "user_messages ?s' = user_messages s"
    and "current_language_code ?s' = current_language_code s"
    and "grows xs (extracted_symptoms s) \<Longrightarrow> grows xs (extracted_symptoms ?s')"
    and "has_checker s \<Longrightarrow> has_checker ?s'"
    by simp_all
qed

section \<open>Claims about the persistence helpers and the empty submission\<close>

text \<open>
  C6.  The two persistence helpers always return normally and leave the conversation log
  as it is; when the backend is not configured or nobody is signed in they return the
  session unchanged.
\<close>

theorem persistence_helpers_never_raise:
  "fst (persist_message_to_db env r c s) = None \<and>
   conversation (snd (persist_message_to_db env r c s)) = conversation s \<and>
   fst (save_health_context_to_memory env s) = None \<and>
   conversation (snd (save_health_context_to_memory env s)) = conversation s \<and>
   (\<not> is_supabase_configured env \<or> supabase_session s = None \<longrightarrow>
      persist_message_to_db env r c s = (None, s) \<and>
      save_health_context_to_memory env s = (None, s))"
proof -
  have "\<not> is_supabase_configured env \<or> supabase_session s = None \<longrightarrow>
      persist_message_to_db env r c s = (None, s) \<and>
      save_health_context_to_memory env s = (None, s)"
    by (simp add: persist_message_to_db_def save_health_context_to_memory_def)
  then show ?thesis
    by (simp add: persist_eq save_health_eq persisted_fields health_saved_fields)
qed

theorem persistence_helpers_never_raise_witness:
  "fst (persist_message_to_db failing_backend User ''hello'' signed_in_state) = None \<and>
   conversation (snd (persist_message_to_db failing_backend User ''hello'' signed_in_state)) =
     [\<lparr>role = User, content = ''hello'', lang = Some ''en''\<rparr>] \<and>
   fst (save_health_context_to_memory failing_backend signed_in_state) = None \<and>
   persist_message_to_db demo_env User ''hello'' signed_in_state = (None, signed_in_state)"
  using persistence_helpers_never_raise [of failing_backend User "''hello''" signed_in_state]
    persistence_helpers_never_raise [of demo_env User "''hello''" signed_in_state]
  by (simp add: signed_in_state_def demo_env_def add_message_to_conversation_def init_state_def)



section \<open>Claim about the rendering of a computed assessment\<close>

text \<open>
  C7.  Once the checker has returned an assessment, \<open>generate_and_display_assessment\<close>
  returns normally and appends one assistant message for it, whatever the rendering does:
  the rendered text when rendering succeeds, the raw payload when rendering raises, and
  the serialisation error when serialising the payload raises too.
\<close>

theorem computed_assessment_is_delivered:
  "symptom_checker_instance s = Some c \<Longrightarrow>
   generate_preliminary_assessment env c = Inr (a, c1) \<Longrightarrow>
   fst (generate_and_display_assessment env s) = None \<and>
   conversation (snd (generate_and_display_assessment env s)) =
     conversation s @
       [\<lparr>role = Assistant,
         content = assessment_reply env (current_language_code s) a, lang = None\<rparr>] \<and>
   (format_assessment env (current_language_code s) a = Inl e \<longrightarrow>
      (json_dumps env a = Inr raw \<longrightarrow>
         assessment_reply env (current_language_code s) a =
           ''Could not format assessment. Raw data:'' @ NL @ FENCE @ ''json'' @ NL @
           raw @ NL @ FENCE) \<and>
      (json_dumps env a = Inl json_e \<longrightarrow>
         assessment_reply env (current_language_code s) a =
           ''Could not format or serialize assessment: '' @ exn_str json_e))"
proof -
  assume inst: "symptom_checker_instance s = Some c"
    and gen: "generate_preliminary_assessment env c = Inr (a, c1)"
  note d = gda_done [OF inst gen]
  show ?thesis
    by (simp add: d(1) d(2) assistant_message_def assessment_reply_def)
qed

theorem computed_assessment_is_delivered_witness:
  "symptom_checker_instance exhausted_state = Some [] \<and>
   generate_preliminary_assessment translation_down [] = Inr (demo_assessment, []) \<and>
   format_assessment translation_down ''en-IN'' demo_assessment = Inl (Error ''translation down'') \<and>
   conversation (snd (generate_and_display_assessment translation_down exhausted_state)) =
     [\<lparr>role = Assistant,
       content = ''Could not format assessment. Raw data:'' @ NL @ FENCE @ ''json'' @ NL @
                 ''{}'' @ NL @ FENCE,
       lang = None\<rparr>]"
proof -
  have inst: "symptom_checker_instance exhausted_state = Some []"
    by (simp add: exhausted_state_def)
  have gen: "generate_preliminary_assessment translation_down [] = Inr (demo_assessment, [])"
    by (simp add: translation_down_def demo_env_def)
  have fmt: "format_assessment translation_down ''en-IN'' demo_assessment =
      Inl (Error ''translation down'')"
    by (simp add: format_assessment_def bind_exn_def util_translate_text_def
          translation_down_def demo_env_def)
  have js: "json_dumps translation_down demo_assessment = Inr ''{}''"
    by (simp add: translation_down_def demo_env_def)
  have lang: "current_language_code exhausted_state = ''en-IN''"
    and conv: "conversation exhausted_state = []"
    by (simp_all add: exhausted_state_def init_state_def)
  show ?thesis
    using computed_assessment_is_delivered [OF inst gen,
        where e = "Error ''translation down''" and raw = "''{}''"]
    by (simp add: inst gen fmt js lang conv)
qed

section \<open>The response procedures keep the user messages\<close>

lemma kept_refl: "kept s xs s"
  by (simp add: kept_def)

lemma kept_trans: "kept s xs s1 \<Longrightarrow> kept s1 xs s2 \<Longrightarrow> kept s xs s2"
  by (simp add: kept_def)

lemma snd_seq:
  "snd (seq r f) = (case fst r of None \<Rightarrow> snd (f (snd r)) | Some e \<Rightarrow> snd r)"
  by (cases r) (simp add: seq_def split: option.split)


lemma kept_seq:
  assumes "kept s xs (snd r)" and "\<And>s1. kept s1 xs (snd (f s1))"
  shows "kept s xs (snd (seq r f))"
proof (cases "fst r")
  case None
  then show ?thesis
    using kept_trans [OF assms(1) assms(2) [of "snd r"]] by (simp add: snd_seq)
next
  case (Some e)
  then show ?thesis using assms(1) by (simp add: snd_seq)
qed

lemma kept_persisted: "kept s xs (persisted env r c s)"
  by (simp add: kept_def user_messages_persisted has_checker_persisted persisted_fields)

lemma kept_health_saved: "kept s xs (health_saved env s)"
  by (simp add: kept_def user_messages_health_saved has_checker_health_saved health_saved_fields)

lemma kept_add_message: "r \<noteq> User \<Longrightarrow> kept s xs (add_message_to_conversation r c l s)"
  by (simp add: kept_def user_messages_add add_message_fields)

lemma kept_gda: "kept s xs (snd (generate_and_display_assessment env s))"
  by (simp add: kept_def gda_effect)

lemma grows_step: "grows xs ys \<Longrightarrow> grows xs (add_symptoms zs ys)"
  using grows_trans [OF _ grows_add] .

lemma kept_symptom_branch: "kept s xs (snd (pdr_symptom_branch env l nlu s))"
proof -
  have upd: "\<And>c q. kept s xs (s\<lparr>symptom_checker_active := True,
      symptom_checker_instance := Some c, pending_symptom_question_data := q\<rparr>)"
    by (simp add: kept_def user_messages_def has_checker_def)
  have upd1: "\<And>c. kept s xs (s\<lparr>symptom_checker_active := True,
      symptom_checker_instance := Some c\<rparr>)"
    by (simp add: kept_def user_messages_def has_checker_def)
  have upd0: "kept s xs (s\<lparr>symptom_checker_active := True\<rparr>)"
    by (simp add: kept_def user_messages_def has_checker_def)
  have msg: "\<And>c q t. kept s xs (persisted env Assistant t
      (add_message_to_conversation Assistant t None (s\<lparr>symptom_checker_active := True,
      symptom_checker_instance := Some c, pending_symptom_question_data := q\<rparr>)))"
    by (rule kept_trans [OF upd]) (rule kept_trans [OF kept_add_message kept_persisted], simp)
  have gda: "\<And>c q. kept s xs (snd (generate_and_display_assessment env
      (s\<lparr>symptom_checker_active := True,
      symptom_checker_instance := Some c, pending_symptom_question_data := q\<rparr>)))"
    by (rule kept_trans [OF upd kept_gda])
  show ?thesis
    by (simp add: pdr_symptom_branch_def Let_def persist_eq upd upd1 upd0 msg gda
          split: sum.split option.split prod.split)
qed

lemma kept_response_branch: "kept s xs (snd (pdr_response_branch env t l nlu s))"
proof -
  have msg: "\<And>c. kept s xs (health_saved env
      ((persisted env Assistant c (add_message_to_conversation Assistant c None s))
         \<lparr>last_advice_given := take 800 c, symptom_checker_active := False\<rparr>))"
  proof -
    fix c
    let ?s1 = "persisted env Assistant c (add_message_to_conversation Assistant c None s)"
    have a: "kept s xs ?s1"
      by (rule kept_trans [OF kept_add_message kept_persisted]) simp
    have b: "kept ?s1 xs (?s1\<lparr>last_advice_given := take 800 c, symptom_checker_active := False\<rparr>)"
      by (simp add: kept_def user_messages_def has_checker_def)
    show "kept s xs (health_saved env
      (?s1\<lparr>last_advice_given := take 800 c, symptom_checker_active := False\<rparr>))"
      by (rule kept_trans [OF a kept_trans [OF b kept_health_saved]])
  qed
  show ?thesis
    by (simp add: pdr_response_branch_def persist_eq save_health_eq seq_None kept_refl msg
          split: sum.split)
qed

lemma kept_try_body: "kept s xs (snd (pdr_try_body env t lc l s))"
proof -
  have upd: "\<And>ys. kept s xs (s\<lparr>extracted_symptoms := add_symptoms ys (extracted_symptoms s)\<rparr>)"
    by (simp add: kept_def user_messages_def has_checker_def grows_step)
  show ?thesis
    by (auto simp: pdr_try_body_def Let_def kept_refl split: sum.split
          intro: kept_trans [OF upd kept_symptom_branch] kept_trans [OF upd kept_response_branch])
qed

lemma pdr_returns: "fst (process_and_display_response env t lc s) = None"
  by (simp add: process_and_display_response_def split: prod.split option.split)

lemma kept_pdr: "kept s xs (snd (process_and_display_response env t lc s))"
proof -
  have sys: "\<And>c s1. kept s1 xs ((add_message_to_conversation System c None s1)
      \<lparr>symptom_checker_active := False, symptom_checker_instance := None,
       pending_symptom_question_data := None, voice_input_stage := None\<rparr>)"
    by (simp add: kept_def user_messages_def has_checker_def add_message_to_conversation_def)
  have sys0: "\<And>c. kept s xs ((add_message_to_conversation System c None s)
      \<lparr>voice_input_stage := None\<rparr>)"
    by (simp add: kept_def user_messages_def has_checker_def add_message_to_conversation_def)
  have voice: "\<And>s1. kept s1 xs (s1\<lparr>voice_input_stage := None\<rparr>)"
    by (simp add: kept_def user_messages_def has_checker_def)
  let ?r = "pdr_try_body env t lc (current_language_code s) s"
  have body: "kept s xs (snd ?r)" by (rule kept_try_body)
  show ?thesis
  proof (cases "SARVAM_API_KEY env = []")
    case True
    then show ?thesis by (simp add: process_and_display_response_def sys0)
  next
    case False
    obtain x1 s1 where r: "?r = (x1, s1)" by (cases ?r)
    have body1: "kept s xs s1" using body by (simp add: r)
    show ?thesis
    proof (cases x1)
      case None
      then have "snd (process_and_display_response env t lc s) = s1\<lparr>voice_input_stage := None\<rparr>"
        using False by (simp add: process_and_display_response_def r)
      then show ?thesis using kept_trans [OF body1 voice] by simp
    next
      case (Some e)
      then have "snd (process_and_display_response env t lc s) =
          (add_message_to_conversation System
             ''Sorry, an error occurred while processing your request. Please try rephrasing or try again later.''
             None s1)
          \<lparr>symptom_checker_active := False, symptom_checker_instance := None,
           pending_symptom_question_data := None, voice_input_stage := None\<rparr>"
        using False by (simp add: process_and_display_response_def r)
      then show ?thesis using kept_trans [OF body1 sys] by simp
    qed
  qed
qed

section \<open>The follow-up handler\<close>

lemma kept_follow_up_record: "kept s xs (snd (follow_up_record env a s))"
proof -
  have upd: "\<And>fa. kept s xs (s\<lparr>follow_up_answers := fa\<rparr>)"
    by (simp add: kept_def user_messages_def has_checker_def)
  have upd1: "\<And>fa c. kept s xs (s\<lparr>follow_up_answers := fa, symptom_checker_instance := Some c\<rparr>)"
    by (simp add: kept_def user_messages_def has_checker_def)
  have upd2: "\<And>fa c q. kept s xs (s\<lparr>follow_up_answers := fa, symptom_checker_instance := Some c,
      pending_symptom_question_data := q\<rparr>)"
    by (simp add: kept_def user_messages_def has_checker_def)
  show ?thesis
    by (simp add: follow_up_record_def Let_def kept_refl upd upd1 upd2
          split: option.split sum.split prod.split)
qed

lemma kept_follow_up_next: "kept s xs (snd (follow_up_next env l s))"
proof -
  have msg: "\<And>t. kept s xs (persisted env Assistant t
      (add_message_to_conversation Assistant t None s))"
    by (rule kept_trans [OF kept_add_message kept_persisted]) simp
  show ?thesis
    by (simp add: follow_up_next_def persist_eq kept_refl kept_gda msg
          split: option.split sum.split)
qed

text \<open>
  The user message that the follow-up handler stores first, when there is a checker and
  a pending question.
\<close>

lemma hfa_state:
  "snd (handle_follow_up_answer env a s) =
     (if symptom_checker_instance s \<noteq> None \<and> pending_symptom_question_data s \<noteq> None
      then (let s1 = persisted env User a
                  (add_message_to_conversation User a
                     (Some (split_dash_first (current_language_code s))) s);
                r = seq (follow_up_record env a s1) (follow_up_next env (current_language_code s))
            in case fst r of None \<Rightarrow> (snd r)\<lparr>voice_input_stage := None\<rparr> | Some e \<Rightarrow> snd r)
      else s\<lparr>symptom_checker_active := False, voice_input_stage := None\<rparr>)"
  by (simp add: handle_follow_up_answer_def Let_def persist_eq seq_None snd_seq
        split: option.split)

lemma kept_said: "kept s xs s' = said s xs [] s'"
  by (simp add: kept_def said_def)

lemma said_kept: "said s xs ms s1 \<Longrightarrow> kept s1 xs s2 \<Longrightarrow> said s xs ms s2"
  by (simp add: kept_def said_def)

lemma said_user_message:
  "said s xs [user_message (current_language_code s) a]
     (persisted env User a
        (add_message_to_conversation User a (Some (split_dash_first (current_language_code s))) s))"
  by (simp add: said_def user_messages_persisted user_messages_add user_message_def
        has_checker_persisted persisted_fields add_message_fields)

lemma said_hfa:
  "said s xs
     (if symptom_checker_instance s \<noteq> None \<and> pending_symptom_question_data s \<noteq> None
      then [user_message (current_language_code s) a] else [])
     (snd (handle_follow_up_answer env a s))"
proof (cases "symptom_checker_instance s \<noteq> None \<and> pending_symptom_question_data s \<noteq> None")
  case True
  let ?s1 = "persisted env User a
        (add_message_to_conversation User a (Some (split_dash_first (current_language_code s))) s)"
  let ?r = "seq (follow_up_record env a ?s1) (follow_up_next env (current_language_code s))"
  have r: "kept ?s1 xs (snd ?r)"
    by (rule kept_seq [OF kept_follow_up_record kept_follow_up_next])
  have voice: "kept (snd ?r) xs ((snd ?r)\<lparr>voice_input_stage := None\<rparr>)"
    by (simp add: kept_def user_messages_def has_checker_def)
  have "kept ?s1 xs (snd (handle_follow_up_answer env a s))"
    using True r kept_trans [OF r voice]
    by (simp add: hfa_state Let_def split: option.split)
  then show ?thesis
    using True said_kept [OF said_user_message] by simp
next
  case False
  have "kept s xs (s\<lparr>symptom_checker_active := False, voice_input_stage := None\<rparr>)"
    by (simp add: kept_def user_messages_def has_checker_def)
  moreover have "snd (handle_follow_up_answer env a s) =
      s\<lparr>symptom_checker_active := False, voice_input_stage := None\<rparr>"
    unfolding hfa_state using False by (simp only: if_False)
  ultimately show ?thesis
    using False by (simp only: kept_said if_False)
qed

lemma hts_follow_up:
  "strip (text_query_input_area s) \<noteq> [] \<Longrightarrow>
   symptom_checker_active s \<and> pending_symptom_question_data s \<noteq> None \<Longrightarrow>
   handle_text_submission env s =
     seq (handle_follow_up_answer env (strip (text_query_input_area s)) s)
       (\<lambda>s2. (None, s2\<lparr>text_query_input_area := []\<rparr>))"
  by (simp add: handle_text_submission_def Let_def)

text \<open>The session handed to the response procedure by a new query.\<close>

lemma hts_new_query:
  "strip (text_query_input_area s) \<noteq> [] \<Longrightarrow>
   \<not> (symptom_checker_active s \<and> pending_symptom_question_data s \<noteq> None) \<Longrightarrow>
   handle_text_submission env s =
     (None, (snd (process_and_display_response env (strip (text_query_input_area s))
                   (current_language_code s)
                   (let s1 = persisted env User (strip (text_query_input_area s))
                               (add_message_to_conversation User (strip (text_query_input_area s))
                                  (Some (split_dash_first (current_language_code s))) s)
                    in if symptom_checker_active s1
                       then s1\<lparr>symptom_checker_active := False,
                               symptom_checker_instance := None,
                               pending_symptom_question_data := None\<rparr>
                       else s1)))
            \<lparr>text_query_input_area := []\<rparr>)"
proof -
  assume a: "strip (text_query_input_area s) \<noteq> []"
    and b: "\<not> (symptom_checker_active s \<and> pending_symptom_question_data s \<noteq> None)"
  have pdr: "\<And>t l s2. process_and_display_response env t l s2 =
      (None, snd (process_and_display_response env t l s2))"
    using pdr_returns by (simp add: prod_eq_iff)
  show ?thesis
    using a b
    by (simp only: handle_text_submission_def Let_def if_False persist_eq seq_None)
       (subst pdr, simp only: seq_None)
qed

lemma said_hts:
  "said s xs
     (if strip (text_query_input_area s) = [] \<or>
         (symptom_checker_active s \<and> pending_symptom_question_data s \<noteq> None \<and>
          symptom_checker_instance s = None)
      then [] else [user_message (current_language_code s) (strip (text_query_input_area s))])
     (snd (handle_text_submission env s))"
proof (cases "strip (text_query_input_area s) = []")
  case True
  then show ?thesis
    using kept_refl [of s xs] by (simp add: handle_text_submission_def kept_said)
next
  case False
  let ?a = "strip (text_query_input_area s)"
  have clear: "\<And>s1. kept s1 xs (s1\<lparr>text_query_input_area := []\<rparr>)"
    by (simp add: kept_def user_messages_def has_checker_def)
  show ?thesis
  proof (cases "symptom_checker_active s \<and> pending_symptom_question_data s \<noteq> None")
    case True
    let ?r = "handle_follow_up_answer env ?a s"
    define ms where "ms = (if symptom_checker_instance s \<noteq> None
        then [user_message (current_language_code s) ?a] else [])"
    have r: "said s xs ms (snd ?r)"
      using said_hfa [of s xs ?a env] True by (simp add: ms_def)
    have "said s xs ms (snd (handle_text_submission env s))"
    proof (cases "fst ?r")
      case None
      then show ?thesis
        using said_kept [OF r clear] by (simp add: hts_follow_up [OF False True] snd_seq)
    next
      case (Some e)
      then show ?thesis
        using r by (simp add: hts_follow_up [OF False True] snd_seq)
    qed
    moreover have "(if strip (text_query_input_area s) = [] \<or>
         (symptom_checker_active s \<and> pending_symptom_question_data s \<noteq> None \<and>
          symptom_checker_instance s = None)
      then [] else [user_message (current_language_code s) ?a]) = ms"
      using False True by (simp add: ms_def)
    ultimately show ?thesis by (simp only:)
  next
    case inactive: False
    let ?s1 = "persisted env User ?a
        (add_message_to_conversation User ?a (Some (split_dash_first (current_language_code s))) s)"
    let ?s2 = "if symptom_checker_active ?s1
               then ?s1\<lparr>symptom_checker_active := False, symptom_checker_instance := None,
                        pending_symptom_question_data := None\<rparr>
               else ?s1"
    let ?r = "process_and_display_response env ?a (current_language_code s) ?s2"
    have a: "said s xs [user_message (current_language_code s) ?a] ?s1"
      by (rule said_user_message)
    have b: "kept ?s1 xs ?s2"
      by (simp add: kept_def user_messages_def has_checker_def)
    have c: "kept ?s2 xs (snd ?r)" by (rule kept_pdr)
    have d: "kept (snd ?r) xs ((snd ?r)\<lparr>text_query_input_area := []\<rparr>)" by (rule clear)
    have "snd (handle_text_submission env s) = (snd ?r)\<lparr>text_query_input_area := []\<rparr>"
      by (simp add: hts_new_query [OF False inactive] Let_def)
    then have "said s xs [user_message (current_language_code s) ?a]
        (snd (handle_text_submission env s))"
      using said_kept [OF said_kept [OF said_kept [OF a b] c] d] by simp
    moreover have "(if strip (text_query_input_area s) = [] \<or>
         (symptom_checker_active s \<and> pending_symptom_question_data s \<noteq> None \<and>
          symptom_checker_instance s = None)
      then [] else [user_message (current_language_code s) ?a]) =
      [user_message (current_language_code s) ?a]"
      using False inactive by auto
    ultimately show ?thesis by (simp only:)
  qed
qed

section \<open>The voice pipeline\<close>

lemma kept_capture_and_clean: "kept s xs (snd (capture_and_clean env s))"
proof -
  have upd: "\<And>a b c. kept s xs (s\<lparr>cleaned_audio_data := a, captured_audio_sample_rate := b,
      voice_input_stage := c\<rparr>)"
    by (simp add: kept_def user_messages_def has_checker_def)
  show ?thesis
    by (simp add: capture_and_clean_def kept_refl upd split: option.split sum.split prod.split)
qed

lemma said_stt_try_body:
  "said s xs
     (case util_transcribe_audio env audio (captured_audio_sample_rate s) l of
        Inl e \<Rightarrow> []
      | Inr r \<Rightarrow>
          (case normalise_transcription env l r of
             Inl e \<Rightarrow> []
           | Inr t \<Rightarrow> if t \<noteq> [] \<and> strip t \<noteq> [] then [user_message l t] else []))
     (snd (stt_try_body env l audio s))"
proof -
  have sys: "\<And>c. said s xs [] (add_message_to_conversation System c None s)"
    using kept_add_message [of System s xs] by (simp add: kept_said)
  have usr: "\<And>t. said s xs [user_message l t]
      (snd (process_and_display_response env t l
         (persisted env User t (add_message_to_conversation User t (Some (split_dash_first l)) s))))"
  proof -
    fix t
    have "said s xs [user_message l t]
        (persisted env User t (add_message_to_conversation User t (Some (split_dash_first l)) s))"
      by (simp add: said_def user_messages_persisted user_messages_add user_message_def
            has_checker_persisted persisted_fields add_message_fields)
    then show "said s xs [user_message l t]
      (snd (process_and_display_response env t l
         (persisted env User t (add_message_to_conversation User t (Some (split_dash_first l)) s))))"
      by (rule said_kept [OF _ kept_pdr])
  qed
  have refl: "said s xs [] s"
    using kept_refl [of s xs] by (simp add: kept_said)
  show ?thesis
    by (simp add: stt_try_body_def persist_eq seq_None refl sys usr split: sum.split)
qed

lemma said_process_stt: "said s xs (stt_user_messages env s) (snd (process_stt env s))"
proof (cases "voice_input_stage s = Some Processing_stt")
  case False
  then show ?thesis
    using kept_refl [of s xs] by (simp add: process_stt_def stt_user_messages_def kept_said)
next
  case True
  show ?thesis
  proof (cases "cleaned_audio_data s")
    case None
    have "kept s xs (s\<lparr>voice_input_stage := None\<rparr>)"
      by (simp add: kept_def user_messages_def has_checker_def)
    then show ?thesis
      using True None by (simp add: process_stt_def stt_user_messages_def kept_said)
  next
    case (Some audio)
    let ?r = "stt_try_body env (current_language_code s) audio s"
    obtain x1 s1 where r: "?r = (x1, s1)" by (cases ?r)
    have ms: "said s xs (stt_user_messages env s) s1"
      using said_stt_try_body [where s = s and xs = xs and env = env and audio = audio
          and l = "current_language_code s"] True Some
      by (simp add: stt_user_messages_def r)
    have reset: "\<And>s2. kept s2 xs (s2\<lparr>captured_audio_data := None, cleaned_audio_data := None,
        voice_input_stage := None\<rparr>)"
      by (simp add: kept_def user_messages_def has_checker_def)
    have sys: "\<And>c. kept s1 xs (add_message_to_conversation System c None s1)"
      by (rule kept_add_message) simp
    show ?thesis
    proof (cases x1)
      case None
      then show ?thesis
        using said_kept [OF ms reset] True Some by (simp add: process_stt_def r)
    next
      case (Some e)
      then show ?thesis
        using said_kept [OF said_kept [OF ms sys] reset] True \<open>cleaned_audio_data s = Some audio\<close>
        by (simp add: process_stt_def r)
    qed
  qed
qed

lemma said_voice_pipeline:
  "\<exists>ms. said s xs ms (snd (voice_pipeline env s))"
proof -
  let ?r = "capture_and_clean env s"
  have a: "kept s xs (snd ?r)" by (rule kept_capture_and_clean)
  show ?thesis
  proof (cases "fst ?r")
    case None
    have "said (snd ?r) xs (stt_user_messages env (snd ?r)) (snd (process_stt env (snd ?r)))"
      by (rule said_process_stt)
    then have "said s xs (stt_user_messages env (snd ?r)) (snd (process_stt env (snd ?r)))"
      using a by (simp add: said_def kept_def)
    then show ?thesis
      using None by (auto simp: voice_pipeline_def snd_seq)
  next
    case (Some e)
    then have "said s xs [] (snd (voice_pipeline env s))"
      using a by (simp add: voice_pipeline_def snd_seq kept_said)
    then show ?thesis by blast
  qed
qed

section \<open>Invariants of the reachable sessions\<close>

lemma said_sound:
  "said s (extracted_symptoms s) ms s' \<Longrightarrow>
   grows (extracted_symptoms s) (extracted_symptoms s') \<and> (has_checker s \<longrightarrow> has_checker s')"
  by (simp add: said_def grows_refl)

lemma voice_pipeline_sound:
  "grows (extracted_symptoms s) (extracted_symptoms (snd (voice_pipeline env s))) \<and>
   (has_checker s \<longrightarrow> has_checker (snd (voice_pipeline env s)))"
  using said_voice_pipeline [of s "extracted_symptoms s" env] said_sound by blast

lemma step_sound:
  "(grows (extracted_symptoms s) (extracted_symptoms (step ev s)) \<or>
    extracted_symptoms (step ev s) = []) \<and>
   (has_checker s \<longrightarrow> has_checker (step ev s))"
proof (cases ev)
  case (Type_text t)
  then show ?thesis by (simp add: grows_refl has_checker_def)
next
  case (Click_send env)
  then show ?thesis
    using said_sound [OF said_hts [of s "extracted_symptoms s" env]] by simp
next
  case (Record_voice env bytes)
  then show ?thesis
    using voice_pipeline_sound [of "s\<lparr>captured_audio_data := Some bytes\<rparr>" env]
    by (simp add: has_checker_def)
next
  case (Rerun env)
  then show ?thesis using voice_pipeline_sound [of s env] by simp
next
  case (Select_language selected code)
  then show ?thesis by (simp add: language_change_def grows_refl has_checker_def)
next
  case Clear_session
  then show ?thesis by (simp add: clear_session_def has_checker_def)
next
  case New_chat
  then show ?thesis by (simp add: grows_refl has_checker_def)
next
  case (Load_chat msgs cid)
  then show ?thesis by (simp add: grows_refl has_checker_def)
next
  case (Sign_in ss chats mem prof)
  then show ?thesis by (simp add: grows_refl has_checker_def)
next
  case Sign_out
  then show ?thesis by (simp add: grows_refl has_checker_def)
next
  case (Save_profile prof)
  then show ?thesis by (simp add: grows_refl has_checker_def)
qed

lemma run_invariant:
  "has_checker s \<Longrightarrow> distinct (extracted_symptoms s) \<Longrightarrow>
   has_checker (run evs s) \<and> distinct (extracted_symptoms (run evs s))"
proof (induction evs arbitrary: s)
  case Nil
  then show ?case by simp
next
  case (Cons ev evs)
  have "has_checker (step ev s)"
    using step_sound [of s ev] Cons.prems(1) by simp
  moreover have "distinct (extracted_symptoms (step ev s))"
    using step_sound [of s ev] Cons.prems(2) grows_distinct by fastforce
  ultimately show ?case
    using Cons.IH [of "step ev s"] by simp
qed

lemma reachable_invariant:
  "has_checker (run evs init_state) \<and> distinct (extracted_symptoms (run evs init_state))"
  by (rule run_invariant) (simp_all add: init_state_def has_checker_def)

section \<open>Claim about the extracted symptoms\<close>

text \<open>
  C8.  In every reachable session the extracted symptoms hold no duplicate.  Every
  interaction either extends the list at its end by membership-checked insertions
  (possibly none), so that the old list is a prefix of the new one, or resets it to the
  empty list.
\<close>

theorem extracted_symptoms_no_duplicates:
  "distinct (extracted_symptoms (run evs init_state)) \<and>
   ((\<exists>xs. extracted_symptoms (step ev s) = add_symptoms xs (extracted_symptoms s)) \<or>
    extracted_symptoms (step ev s) = []) \<and>
   (prefix (extracted_symptoms s) (extracted_symptoms (step ev s)) \<or>
    extracted_symptoms (step ev s) = []) \<and>
   distinct (add_symptoms xs (extracted_symptoms (run evs init_state)))"
proof -
  have d: "distinct (extracted_symptoms (run evs init_state))"
    using reachable_invariant by blast
  have g: "grows (extracted_symptoms s) (extracted_symptoms (step ev s)) \<or>
      extracted_symptoms (step ev s) = []"
    using step_sound [of s ev] by simp
  then have p: "prefix (extracted_symptoms s) (extracted_symptoms (step ev s)) \<or>
      extracted_symptoms (step ev s) = []"
    using grows_prefix by blast
  show ?thesis
    using d g p distinct_add_symptoms [OF d] by (simp add: grows_def)
qed

section \<open>Claim about the user message of a submission\<close>





section \<open>Claim about an empty transcription\<close>

lemmas turn_defs =
  handle_text_submission_def handle_follow_up_answer_def follow_up_record_def
  follow_up_next_def process_and_display_response_def pdr_try_body_def pdr_symptom_branch_def
  pdr_response_branch_def build_session_context_def generate_and_display_assessment_def
  render_try_body_def assessment_fallback_def persist_message_to_db_def
  save_health_context_to_memory_def add_message_to_conversation_def seq_def
  voice_pipeline_def capture_and_clean_def process_stt_def stt_try_body_def
  normalise_transcription_def util_translate_text_def util_translate_text_to_english_def
  util_transcribe_audio_def




section \<open>Concrete turns\<close>

lemmas demo_defs =
  demo_env_def demo_nlu_def q_since_def q_temp_def init_state_def split_dash_first_def
  strip_def py_isspace_def Let_def

lemma interview_state_eq:
  "interview_state =
     init_state\<lparr>conversation :=
                  [\<lparr>role = User, content = ''fever'', lang = Some ''en''\<rparr>,
                   \<lparr>role = Assistant, content = ''Since when?: fever'', lang = None\<rparr>],
                symptom_checker_active := True,
                symptom_checker_instance := Some [q_temp],
                pending_symptom_question_data := Some q_since,
                extracted_symptoms := [''fever'']\<rparr>"
  by (simp add: interview_state_def turn_defs demo_defs)

text \<open>
  C1, on a concrete turn.  A question is pending.  The typed answer \<open>yes\<close> is recorded as
  the answer and the next question becomes pending; the same answer arriving through the
  voice pipeline is handled as a new query: no answer is recorded, the response generator
  replies, and the old question stays pending.
\<close>

theorem voice_answer_is_handled_as_new_query:
  "symptom_checker_active interview_state \<and>
   pending_symptom_question_data interview_state = Some q_since \<and>
   follow_up_answers (step (Click_send demo_env) (step (Type_text ''yes'') interview_state)) =
     [\<lparr>fa_symptom_name = ''fever'', fa_question = ''Since when?'', fa_answer = ''yes''\<rparr>] \<and>
   pending_symptom_question_data
     (step (Click_send demo_env) (step (Type_text ''yes'') interview_state)) = Some q_temp \<and>
   follow_up_answers (step (Record_voice demo_env [0]) interview_state) = [] \<and>
   pending_symptom_question_data (step (Record_voice demo_env [0]) interview_state) =
     Some q_since \<and>
   conversation (step (Record_voice demo_env [0]) interview_state) =
     conversation interview_state @
       [\<lparr>role = User, content = ''yes'', lang = Some ''en''\<rparr>,
        \<lparr>role = Assistant, content = ''Drink water.'', lang = None\<rparr>]"
  by (simp add: interview_state_eq turn_defs demo_defs)

text \<open>
  C9, on a concrete run.  After the voice turn above the session holds a pending question
  although the symptom session is no longer active.
\<close>

theorem pending_question_outlives_active_flag:
  "pending_symptom_question_data
     (run [Type_text ''fever'', Click_send demo_env, Record_voice demo_env [0]] init_state) =
     Some q_since \<and>
   symptom_checker_active
     (run [Type_text ''fever'', Click_send demo_env, Record_voice demo_env [0]] init_state) =
     False \<and>
   symptom_checker_instance
     (run [Type_text ''fever'', Click_send demo_env, Record_voice demo_env [0]] init_state) =
     Some [q_temp]"
  by (simp add: turn_defs demo_defs)

text \<open>
  C3, on a concrete turn.  The checker raises while the typed answer is recorded: the
  exception leaves the handler, no system message is appended, and the symptom session
  stays as it was, with the user message and the answer already stored.
\<close>

theorem follow_up_exception_is_not_caught:
  "fst (handle_text_submission checker_down
          (interview_state\<lparr>text_query_input_area := ''yes''\<rparr>)) =
     Some (Error ''checker down'') \<and>
   system_messages (snd (handle_text_submission checker_down
          (interview_state\<lparr>text_query_input_area := ''yes''\<rparr>))) = [] \<and>
   symptom_checker_active (snd (handle_text_submission checker_down
          (interview_state\<lparr>text_query_input_area := ''yes''\<rparr>))) \<and>
   symptom_checker_instance (snd (handle_text_submission checker_down
          (interview_state\<lparr>text_query_input_area := ''yes''\<rparr>))) = Some [q_temp] \<and>
   pending_symptom_question_data (snd (handle_text_submission checker_down
          (interview_state\<lparr>text_query_input_area := ''yes''\<rparr>))) = Some q_since \<and>
   conversation (snd (handle_text_submission checker_down
          (interview_state\<lparr>text_query_input_area := ''yes''\<rparr>))) =
     conversation interview_state @ [\<lparr>role = User, content = ''yes'', lang = Some ''en''\<rparr>]"
  by (simp add: interview_state_eq turn_defs demo_defs checker_down_def system_messages_def)

section \<open>The rounds of an interview\<close>







section \<open>Claim about the follow-up loop\<close>




end
